(* ===== verification/Prelude.thy ===== *)
theory Prelude
  imports Main "HOL-Library.Sublist"
begin

text \<open>
  Shared vocabulary of the development: the names of the model's types, the
  collections of handler definitions that the component proofs unfold, and
  generic lemmas on lists, \<open>List.find\<close>, maps and integer clamping that
  more than one component uses.
\<close>

section \<open>Types of the model\<close>

text \<open>
  Element ids are JavaScript strings (\<open>string\<close>, ASCII in this page).
  Pixel quantities (\<open>window.scrollY\<close>, \<open>offsetTop\<close>, \<open>offsetHeight\<close>,
  \<open>window.innerWidth\<close>, \<open>clientX\<close>) are integers: the page compares them
  with \<open>\<ge>\<close>, \<open><\<close> and \<open>>\<close> only and adds the constant 200, so the
  unbounded \<open>int\<close> is exact for them.
\<close>

type_synonym section_id = string
type_synonym px = int

text \<open>A JavaScript object with string keys and string values (\<open>formData\<close>).\<close>

type_synonym js_object = "string \<rightharpoonup> string"

section \<open>Integers\<close>

text \<open>Clamping a value into an interval, as the browser does with a scroll position.\<close>

definition clamp :: "int \<Rightarrow> int \<Rightarrow> int \<Rightarrow> int" where
  "clamp lo hi v = max lo (min hi v)"

section \<open>Collections\<close>

text \<open>
  \<open>handler_defs\<close> collects the definitions of the page's event handlers;
  a property of a handler unfolds them with \<open>simp add: handler_defs\<close>.
  \<open>view_defs\<close> does the same for the rendering functions.
\<close>

named_theorems handler_defs
named_theorems view_defs

section \<open>Lists and \<open>List.find\<close>\<close>

text \<open>
  The first element of a list that satisfies a predicate which at most one
  element satisfies is that element: the order of the list does not matter.
\<close>

lemma find_unique:
  assumes "x \<in> set xs" and "P x"
    and "\<And>y. y \<in> set xs \<Longrightarrow> P y \<Longrightarrow> y = x"
  shows "List.find P xs = Some x"
  using assms
proof (induction xs)
  case Nil
  then show ?case by simp
next
  case (Cons a xs)
  show ?case
  proof (cases "P a")
    case True
    have "a = x" by (rule Cons.prems(3)) (simp_all add: True)
    with True show ?thesis by simp
  next
    case False
    with Cons.prems(1,2) have x: "x \<in> set xs" by auto
    have "List.find P xs = Some x"
    proof (rule Cons.IH [OF x Cons.prems(2)])
      fix y assume "y \<in> set xs" "P y"
      then show "y = x" by (intro Cons.prems(3)) simp_all
    qed
    with False show ?thesis by simp
  qed
qed

lemma find_Some_mem:
  "List.find P xs = Some x \<Longrightarrow> x \<in> set xs \<and> P x"
  by (induction xs) (auto split: if_splits)

lemma find_append_None:
  "List.find P ys = None \<Longrightarrow> List.find P (ys @ zs) = List.find P zs"
  by (induction ys) (auto split: if_splits)

section \<open>Clamping\<close>

lemma clamp_bounds: "lo \<le> hi \<Longrightarrow> lo \<le> clamp lo hi v \<and> clamp lo hi v \<le> hi"
  by (simp add: clamp_def)

lemma clamp_id [simp]: "lo \<le> v \<Longrightarrow> v \<le> hi \<Longrightarrow> clamp lo hi v = v"
  by (simp add: clamp_def)

section \<open>Maps\<close>

lemma dom_upd_mem [simp]: "k \<in> dom m \<Longrightarrow> dom (m(k \<mapsto> v)) = dom m"
  by auto

end
