(* ===== verification/PortfolioState.thy ===== *)
theory PortfolioState
  imports Prelude
begin

text \<open>
  The state of the React component \<open>Portfolio\<close> (src/app/page.tsx,
  lines 14--25): one field per \<open>useState\<close> hook, with the hook's name, and
  the initial values the hooks are created with. Every handler of the page
  closes over this one state; the component theories model each handler as
  a function from this record to the updated record.
\<close>

record portfolio =
  formData :: js_object
  isSubmitting :: bool
  submitMessage :: string
  activeSection :: section_id
  isMenuOpen :: bool
  cursorPosition :: "px \<times> px"
  isHoveringLink :: bool

text \<open>The three keys of the contact form object, in the order of the literal.\<close>

definition form_fields :: "string list" where
  "form_fields = [''name'', ''email'', ''message'']"

text \<open>\<open>{ name: "", email: "", message: "" }\<close>: created on load and again after a successful submit.\<close>

definition empty_form :: js_object where
  "empty_form = [''name'' \<mapsto> '''', ''email'' \<mapsto> '''', ''message'' \<mapsto> '''']"

definition portfolio_init :: portfolio where
  "portfolio_init =
     \<lparr>formData = empty_form,
      isSubmitting = False,
      submitMessage = '''',
      activeSection = ''home'',
      isMenuOpen = False,
      cursorPosition = (0, 0),
      isHoveringLink = False\<rparr>"

lemma dom_empty_form [simp]: "dom empty_form = set form_fields"
  by (auto simp: empty_form_def form_fields_def)

lemma empty_form_lookup: "k \<in> set form_fields \<Longrightarrow> empty_form k = Some ''''"
  by (auto simp: empty_form_def form_fields_def)

end
