(* ===== verification/ScrollTracker.thy ===== *)
theory ScrollTracker
  imports PortfolioState
begin

text \<open>
  The scroll listener \<open>handleScroll\<close> (src/app/page.tsx, lines 28--47),
  registered on mount (line 59). On every scroll event it takes the probe
  \<open>window.scrollY + 200\<close> and walks the ids \<open>home, about, services,
  contact\<close> in this order. For each id it looks up the element
  (\<open>document.getElementById\<close>, which may give \<open>null\<close>). The first
  element whose box \<open>[offsetTop, offsetTop + offsetHeight)\<close> contains the
  probe becomes \<open>activeSection\<close> and the loop breaks. When no box contains
  the probe, the state is left alone.

  The document is a parameter \<open>doc\<close>, a map from ids to the element's
  \<open>(offsetTop, offsetHeight)\<close>. The loop with its \<open>break\<close> is
  \<open>scan_sections\<close>. The lemmas show four things. The loop computes
  \<open>List.find\<close> of the containment test. The handler touches
  \<open>activeSection\<close> only. Its result is a tracked id or the previous value.
  With non-overlapping boxes the result does not depend on the order of the
  list.
\<close>

section \<open>Definitions\<close>

text \<open>An element's layout box: \<open>(offsetTop, offsetHeight)\<close>.\<close>

type_synonym element = "px \<times> px"

text \<open>\<open>document.getElementById\<close>: the element with an id, if the page has one.\<close>

type_synonym dom_layout = "section_id \<Rightarrow> element option"

text \<open>The ids the listener tracks (line 29), in the order of the array.\<close>

definition tracked_sections :: "section_id list" where
  "tracked_sections = [''home'', ''about'', ''services'', ''contact'']"

text \<open>\<open>const scrollPosition = window.scrollY + 200\<close> (line 30).\<close>

definition scroll_probe :: "px \<Rightarrow> px" where
  "scroll_probe scrollY = scrollY + 200"

text \<open>The test of lines 38--41 on one element.\<close>

fun in_span :: "px \<Rightarrow> element \<Rightarrow> bool" where
  "in_span p (offsetTop, offsetHeight) \<longleftrightarrow> p \<ge> offsetTop \<and> p < offsetTop + offsetHeight"

text \<open>
  The \<open>for \<dots> of\<close> loop of lines 32--46: a missing element is skipped
  (\<open>if (element)\<close>), the first match is returned (\<open>break\<close>).
\<close>

fun scan_sections :: "dom_layout \<Rightarrow> px \<Rightarrow> section_id list \<Rightarrow> section_id option" where
  "scan_sections doc p [] = None"
| "scan_sections doc p (section # rest) =
     (case doc section of
        None \<Rightarrow> scan_sections doc p rest
      | Some element \<Rightarrow>
          if in_span p element then Some section else scan_sections doc p rest)"

text \<open>The handler: \<open>setActiveSection(section)\<close> on a match, nothing otherwise.\<close>

definition handleScroll :: "dom_layout \<Rightarrow> px \<Rightarrow> portfolio \<Rightarrow> portfolio" where
  "handleScroll doc scrollY s =
     (case scan_sections doc (scroll_probe scrollY) tracked_sections of
        Some section \<Rightarrow> s\<lparr>activeSection := section\<rparr>
      | None \<Rightarrow> s)"

text \<open>
  The reference the loop is compared with: the section's element exists and
  its box contains the probe.
\<close>

definition contains_probe :: "dom_layout \<Rightarrow> px \<Rightarrow> section_id \<Rightarrow> bool" where
  "contains_probe doc p section =
     (case doc section of None \<Rightarrow> False | Some element \<Rightarrow> in_span p element)"

text \<open>Two boxes share no pixel row (an empty box shares none).\<close>

fun boxes_disjoint :: "element \<Rightarrow> element \<Rightarrow> bool" where
  "boxes_disjoint (t1, h1) (t2, h2) \<longleftrightarrow>
     t1 + h1 \<le> t2 \<or> t2 + h2 \<le> t1 \<or> h1 \<le> 0 \<or> h2 \<le> 0"

text \<open>The boxes of the tracked sections do not overlap.\<close>

definition layout_disjoint :: "dom_layout \<Rightarrow> bool" where
  "layout_disjoint doc \<longleftrightarrow>
     (\<forall>a \<in> set tracked_sections. \<forall>b \<in> set tracked_sections. a \<noteq> b \<longrightarrow>
        (case (doc a, doc b) of
           (Some ea, Some eb) \<Rightarrow> boxes_disjoint ea eb
         | _ \<Rightarrow> True))"

declare handleScroll_def [handler_defs]

section \<open>Lemmas\<close>

lemma in_span_disjoint:
  "boxes_disjoint ea eb \<Longrightarrow> in_span p ea \<Longrightarrow> in_span p eb \<Longrightarrow> False"
  by (cases ea; cases eb) auto

lemma contains_probe_unique:
  assumes "layout_disjoint doc"
    and "a \<in> set tracked_sections" "b \<in> set tracked_sections"
    and "contains_probe doc p a" "contains_probe doc p b"
  shows "a = b"
proof (rule ccontr)
  assume "a \<noteq> b"
  from assms(4) obtain ea where ea: "doc a = Some ea" "in_span p ea"
    by (auto simp: contains_probe_def split: option.splits)
  from assms(5) obtain eb where eb: "doc b = Some eb" "in_span p eb"
    by (auto simp: contains_probe_def split: option.splits)
  from assms(1-3) \<open>a \<noteq> b\<close> ea(1) eb(1) have "boxes_disjoint ea eb"
    unfolding layout_disjoint_def by fastforce
  then show False using ea(2) eb(2) by (rule in_span_disjoint)
qed

lemma scan_sections_in_list:
  "scan_sections doc p ss = Some section \<Longrightarrow> section \<in> set ss"
  by (induction doc p ss rule: scan_sections.induct) (auto split: option.splits if_splits)

lemma handleScroll_tracked:
  "activeSection s \<in> set tracked_sections \<Longrightarrow>
   activeSection (handleScroll doc y s) \<in> set tracked_sections"
  by (auto simp: handleScroll_def dest: scan_sections_in_list split: option.splits)

text \<open>The loop computes \<open>List.find\<close> of the containment test.\<close>

lemma scan_sections_find:
  "scan_sections doc p ss = List.find (contains_probe doc p) ss"
  by (induction doc p ss rule: scan_sections.induct)
    (simp_all add: contains_probe_def split: option.splits)

text \<open>
  C3: a scroll event sets \<open>activeSection\<close> to the first tracked id, in the
  order home, about, services, contact, whose box contains
  \<open>scrollY + 200\<close>, keeps the previous value when there is none, and
  changes no other field of the state.
\<close>

theorem handleScroll_spec:
  "handleScroll doc scrollY s =
     s\<lparr>activeSection :=
        (case List.find (contains_probe doc (scrollY + 200)) tracked_sections of
           Some section \<Rightarrow> section
         | None \<Rightarrow> activeSection s)\<rparr>"
  by (simp add: handleScroll_def scroll_probe_def scan_sections_find split: option.splits)

text \<open>
  C4: when the boxes of the tracked sections do not overlap, the section
  whose box contains the probe becomes active, whatever its place in the
  list.
\<close>

theorem handleScroll_disjoint:
  assumes "layout_disjoint doc"
    and "section \<in> set tracked_sections"
    and "contains_probe doc (scrollY + 200) section"
  shows "activeSection (handleScroll doc scrollY s) = section"
proof -
  have "List.find (contains_probe doc (scrollY + 200)) tracked_sections = Some section"
    using assms(2,3) by (rule find_unique) (use assms contains_probe_unique in blast)
  then show ?thesis by (simp add: handleScroll_def scroll_probe_def scan_sections_find)
qed

theorem handleScroll_disjoint_witness:
  "layout_disjoint [''home'' \<mapsto> (0, 900), ''about'' \<mapsto> (900, 900),
                    ''services'' \<mapsto> (1800, 1000), ''contact'' \<mapsto> (4200, 900)] \<and>
   ''services'' \<in> set tracked_sections \<and>
   contains_probe [''home'' \<mapsto> (0, 900), ''about'' \<mapsto> (900, 900),
                   ''services'' \<mapsto> (1800, 1000), ''contact'' \<mapsto> (4200, 900)]
     (1700 + 200) ''services'' \<and>
   activeSection (handleScroll [''home'' \<mapsto> (0, 900), ''about'' \<mapsto> (900, 900),
                   ''services'' \<mapsto> (1800, 1000), ''contact'' \<mapsto> (4200, 900)]
     1700 portfolio_init) = ''services''"
proof -
  let ?doc = "[''home'' \<mapsto> (0::int, 900::int), ''about'' \<mapsto> (900, 900),
               ''services'' \<mapsto> (1800, 1000), ''contact'' \<mapsto> (4200, 900)]"
  have d: "layout_disjoint ?doc" by (simp add: layout_disjoint_def tracked_sections_def)
  have s: "''services'' \<in> set tracked_sections" by (simp add: tracked_sections_def)
  have c: "contains_probe ?doc (1700 + 200) ''services''" by (simp add: contains_probe_def)
  from handleScroll_disjoint [OF d s c] d s c show ?thesis by blast
qed

end
