(* ===== verification/Navigation.thy ===== *)
theory Navigation
  imports ScrollTracker
begin

text \<open>
  The navigation handlers of src/app/page.tsx: \<open>scrollToSection\<close>
  (lines 97--104), \<open>toggleMenu\<close> (lines 106--108) and the resize listener
  \<open>handleResize\<close> (lines 53--57, registered at line 61).
  \<open>scrollToSection\<close> sets the active section at once and closes the mobile
  menu. If the element exists it also asks the browser to scroll it into
  view. That request is returned beside the new state: the element's
  \<open>offsetTop\<close>, which \<open>scrollIntoView\<close> aligns with the top of the
  viewport. The page theory (Page) carries the request out.
\<close>

section \<open>Definitions\<close>

text \<open>The width above which the resize listener closes the mobile menu (line 54).\<close>

definition menu_breakpoint :: px where
  "menu_breakpoint = 768"

definition scrollToSection :: "dom_layout \<Rightarrow> section_id \<Rightarrow> portfolio \<Rightarrow> portfolio \<times> px option" where
  "scrollToSection doc sectionId s =
     (let s1 = s\<lparr>activeSection := sectionId\<rparr>;
          s2 = s1\<lparr>isMenuOpen := False\<rparr>
      in (s2, case doc sectionId of
                None \<Rightarrow> None
              | Some (offsetTop, offsetHeight) \<Rightarrow> Some offsetTop))"

definition toggleMenu :: "portfolio \<Rightarrow> portfolio" where
  "toggleMenu s = s\<lparr>isMenuOpen := \<not> isMenuOpen s\<rparr>"

definition handleResize :: "px \<Rightarrow> portfolio \<Rightarrow> portfolio" where
  "handleResize innerWidth s =
     (if innerWidth > menu_breakpoint then s\<lparr>isMenuOpen := False\<rparr> else s)"

declare scrollToSection_def [handler_defs] toggleMenu_def [handler_defs]
  handleResize_def [handler_defs]

section \<open>Lemmas\<close>

lemma scrollToSection_state:
  "fst (scrollToSection doc sectionId s) = s\<lparr>activeSection := sectionId, isMenuOpen := False\<rparr>"
  by (simp add: scrollToSection_def)

lemma scrollToSection_request:
  "snd (scrollToSection doc sectionId s) = map_option fst (doc sectionId)"
  by (simp add: scrollToSection_def split: option.splits prod.splits)

lemma toggleMenu_toggleMenu: "toggleMenu (toggleMenu s) = s"
  by (simp add: toggleMenu_def)

lemma handleResize_wide:
  "menu_breakpoint < w \<Longrightarrow> handleResize w s = s\<lparr>isMenuOpen := False\<rparr>"
  by (simp add: handleResize_def)

lemma handleResize_narrow: "w \<le> menu_breakpoint \<Longrightarrow> handleResize w s = s"
  by (simp add: handleResize_def)

lemma handleResize_activeSection [simp]: "activeSection (handleResize w s) = activeSection s"
  by (simp add: handleResize_def)

lemma toggleMenu_activeSection [simp]: "activeSection (toggleMenu s) = activeSection s"
  by (simp add: toggleMenu_def)

end
