(* ===== verification/Pointer.thy ===== *)
theory Pointer
  imports PortfolioState
begin

text \<open>
  The pointer handlers of src/app/page.tsx: the \<open>mousemove\<close> listener
  \<open>handleMouseMove\<close> (lines 49--51, registered at line 60) and the
  \<open>onMouseEnter\<close> and \<open>onMouseLeave\<close> callbacks of the navigation buttons,
  hero buttons, contact links and submit button (lines 202--203, 348--349,
  357--358, 645--646, 665--666, 693--694, 800--801). Each writes one field,
  \<open>cursorPosition\<close> or \<open>isHoveringLink\<close>. No rendering reads these fields,
  so they never change what the page shows.
\<close>

section \<open>Definitions\<close>

definition handleMouseMove :: "px \<Rightarrow> px \<Rightarrow> portfolio \<Rightarrow> portfolio" where
  "handleMouseMove clientX clientY s = s\<lparr>cursorPosition := (clientX, clientY)\<rparr>"

text \<open>\<open>() => setIsHoveringLink(true)\<close> and \<open>() => setIsHoveringLink(false)\<close>.\<close>

definition setHovering :: "bool \<Rightarrow> portfolio \<Rightarrow> portfolio" where
  "setHovering b s = s\<lparr>isHoveringLink := b\<rparr>"

declare handleMouseMove_def [handler_defs] setHovering_def [handler_defs]

section \<open>Lemmas\<close>

lemma handleMouseMove_activeSection [simp]:
  "activeSection (handleMouseMove x y s) = activeSection s"
  by (simp add: handleMouseMove_def)

lemma setHovering_activeSection [simp]: "activeSection (setHovering b s) = activeSection s"
  by (simp add: setHovering_def)

end
