(* ===== verification/ContactForm.thy ===== *)
theory ContactForm
  imports PortfolioState
begin

text \<open>
  The contact form handlers of src/app/page.tsx. \<open>handleChange\<close>
  (lines 70--78) writes one key of \<open>formData\<close>, named by the input's
  \<open>name\<close> attribute, and keeps the others. \<open>handleSubmit\<close>
  (lines 80--95) is an \<open>async\<close> function. It runs in two parts, split at its
  \<open>await\<close>:
  \<^item> \<open>handleSubmit_sync\<close> runs synchronously in the submit event:
    \<open>e.preventDefault()\<close> marks the event so that the browser does not
    submit the form itself, and \<open>handleSubmit_start\<close> is
    \<open>setIsSubmitting(true)\<close>;
  \<^item> \<open>handleSubmit_resume\<close> is the continuation that runs when the
    promise \<open>new Promise(resolve => setTimeout(resolve, 1000))\<close> settles.
    On fulfilment it runs the rest of the \<open>try\<close> block (success message,
    cleared fields). On rejection it runs the \<open>catch\<close> block (failure
    message). Both end with the \<open>finally\<close> block
    (\<open>setIsSubmitting(false)\<close>).
  The promise only ever resolves: \<open>delay_outcome\<close> records that, and the
  page theory runs the continuation with it. Between the two parts any
  number of other events may run. The page theory (Page) models that
  interleaving.
\<close>

section \<open>Definitions\<close>

text \<open>\<open>setFormData(prev => ({...prev, [name]: value}))\<close>.\<close>

definition handleChange :: "string \<Rightarrow> string \<Rightarrow> portfolio \<Rightarrow> portfolio" where
  "handleChange name value s = s\<lparr>formData := (formData s)(name \<mapsto> value)\<rparr>"

text \<open>How a JavaScript promise settles.\<close>

datatype promise_result = Resolved | Rejected

text \<open>The two messages of lines 87 and 91.\<close>

definition thanks_message :: string where
  "thanks_message = ''Thank you for your message! I'll get back to you soon.''"

definition failure_message :: string where
  "failure_message = ''Something went wrong. Please try again later.''"

text \<open>The delay of the simulated request, in milliseconds (line 85).\<close>

definition submit_delay_ms :: nat where
  "submit_delay_ms = 1000"

text \<open>\<open>new Promise((resolve) => setTimeout(resolve, 1000))\<close> calls only \<open>resolve\<close>.\<close>

definition delay_outcome :: promise_result where
  "delay_outcome = Resolved"

text \<open>The submit event object, as far as the browser reads it after the handler.\<close>

record submit_event =
  defaultPrevented :: bool

definition preventDefault :: "submit_event \<Rightarrow> submit_event" where
  "preventDefault e = e\<lparr>defaultPrevented := True\<rparr>"

text \<open>\<open>setIsSubmitting(true)\<close> (line 82).\<close>

definition handleSubmit_start :: "portfolio \<Rightarrow> portfolio" where
  "handleSubmit_start s = s\<lparr>isSubmitting := True\<rparr>"

text \<open>Lines 80--84, up to the \<open>await\<close>: the event after the handler, and the new state.\<close>

definition handleSubmit_sync :: "submit_event \<Rightarrow> portfolio \<Rightarrow> submit_event \<times> portfolio" where
  "handleSubmit_sync e s = (preventDefault e, handleSubmit_start s)"

text \<open>Lines 85--94 after the \<open>await\<close>: \<open>try\<close> rest or \<open>catch\<close>, then \<open>finally\<close>.\<close>

definition handleSubmit_resume :: "promise_result \<Rightarrow> portfolio \<Rightarrow> portfolio" where
  "handleSubmit_resume r s =
     (let s1 =
        (case r of
           Resolved \<Rightarrow>
             (s\<lparr>submitMessage := thanks_message\<rparr>)\<lparr>formData := empty_form\<rparr>
         | Rejected \<Rightarrow> s\<lparr>submitMessage := failure_message\<rparr>)
      in s1\<lparr>isSubmitting := False\<rparr>)"

declare handleChange_def [handler_defs] handleSubmit_start_def [handler_defs]
  handleSubmit_resume_def [handler_defs]

section \<open>Lemmas\<close>

lemma handleSubmit_sync_eq [simp]:
  "handleSubmit_sync e s = (e\<lparr>defaultPrevented := True\<rparr>, handleSubmit_start s)"
  by (simp add: handleSubmit_sync_def preventDefault_def)

lemma handleChange_lookup:
  "formData (handleChange name value s) k = (if k = name then Some value else formData s k)"
  by (simp add: handleChange_def)

lemma dom_handleChange:
  "name \<in> set form_fields \<Longrightarrow> dom (formData s) = set form_fields \<Longrightarrow>
   dom (formData (handleChange name value s)) = set form_fields"
  by (auto simp add: handleChange_def)

lemma handleSubmit_resume_Resolved:
  "handleSubmit_resume Resolved s =
     s\<lparr>submitMessage := thanks_message, formData := empty_form, isSubmitting := False\<rparr>"
  by (simp add: handleSubmit_resume_def)

lemma handleSubmit_resume_Rejected:
  "handleSubmit_resume Rejected s =
     s\<lparr>submitMessage := failure_message, isSubmitting := False\<rparr>"
  by (simp add: handleSubmit_resume_def)

lemma handleSubmit_resume_not_submitting [simp]:
  "\<not> isSubmitting (handleSubmit_resume r s)"
  by (cases r) (simp_all add: handleSubmit_resume_def)

lemma handleSubmit_resume_activeSection [simp]:
  "activeSection (handleSubmit_resume r s) = activeSection s"
  by (cases r) (simp_all add: handleSubmit_resume_def)

lemma handleChange_activeSection [simp]: "activeSection (handleChange n v s) = activeSection s"
  by (simp add: handleChange_def)

lemma handleSubmit_start_activeSection [simp]:
  "activeSection (handleSubmit_start s) = activeSection s"
  by (simp add: handleSubmit_start_def)

lemma thanks_ne_failure: "thanks_message \<noteq> failure_message"
  by (simp add: thanks_message_def failure_message_def)

end
