(* ===== verification/FormValidation.thy ===== *)
theory FormValidation
  imports PortfolioState
begin

text \<open>
  The browser's constraint validation of the contact form (src/app/page.tsx,
  lines 740--797). The form fires \<open>submit\<close>, and so \<open>handleSubmit\<close>,
  only when every control is valid. Each of the three inputs is
  \<open>required\<close> (lines 753, 772, 790), so its value must be non-empty. The
  email input has \<open>type="email"\<close> (line 767), so a non-empty value must be
  a valid e-mail address in the sense of the HTML standard:
  \<^verbatim>\<open>local@label(.label)*\<close>. The local part is one or more characters
  from the letters, the digits and \<^verbatim>\<open>.!#$%&'*+/=?^_`{|}~-\<close>. A label
  has 1 to 63 letters, digits or hyphens, and starts and ends with a letter
  or digit. These rules come from the HTML standard, not from the
  repository. The value each control hands to \<open>onChange\<close> is its
  sanitised value (\<open>input_value\<close>). Sanitising twice changes nothing, so
  the form object only ever holds fixpoints (\<open>fields_sanitized\<close>).
\<close>

section \<open>Definitions\<close>

definition is_alnum :: "char \<Rightarrow> bool" where
  "is_alnum c \<longleftrightarrow>
     (let n = of_char c :: nat in (48 \<le> n \<and> n \<le> 57) \<or> (65 \<le> n \<and> n \<le> 90) \<or> (97 \<le> n \<and> n \<le> 122))"

definition email_local_char :: "char \<Rightarrow> bool" where
  "email_local_char c \<longleftrightarrow> is_alnum c \<or> c \<in> set ''.!#$%&'*+/=?^_`{|}~-''"

definition email_label :: "string \<Rightarrow> bool" where
  "email_label l \<longleftrightarrow>
     l \<noteq> [] \<and> length l \<le> 63 \<and> list_all (\<lambda>c. is_alnum c \<or> c = CHR ''-'') l \<and>
     is_alnum (hd l) \<and> is_alnum (last l)"

text \<open>Splitting at every dot: \<open>''a.b''\<close> gives \<open>[''a'', ''b'']\<close>, \<open>''a.''\<close> gives \<open>[''a'', '''']\<close>.\<close>

fun split_dots :: "string \<Rightarrow> string list" where
  "split_dots [] = [[]]"
| "split_dots (c # cs) =
     (if c = CHR ''.'' then [] # split_dots cs
      else (case split_dots cs of l # ls \<Rightarrow> (c # l) # ls | [] \<Rightarrow> [[c]]))"

definition valid_email :: "string \<Rightarrow> bool" where
  "valid_email s \<longleftrightarrow>
     (let local = takeWhile (\<lambda>c. c \<noteq> CHR ''@'') s;
          rest = dropWhile (\<lambda>c. c \<noteq> CHR ''@'') s
      in local \<noteq> [] \<and> list_all email_local_char local \<and>
         (case rest of [] \<Rightarrow> False | at # domain \<Rightarrow> list_all email_label (split_dots domain)))"

text \<open>The \<open>required\<close> constraint of the three inputs.\<close>

definition required_filled :: "js_object \<Rightarrow> bool" where
  "required_filled fd \<longleftrightarrow>
     list_all (\<lambda>k. case fd k of None \<Rightarrow> False | Some v \<Rightarrow> v \<noteq> []) form_fields"

text \<open>The form is valid: all fields filled in and the email well formed.\<close>

definition form_valid :: "js_object \<Rightarrow> bool" where
  "form_valid fd \<longleftrightarrow>
     required_filled fd \<and> (case fd ''email'' of None \<Rightarrow> False | Some e \<Rightarrow> valid_email e)"

text \<open>
  The value the browser hands to \<open>onChange\<close> as \<open>e.target.value\<close>
  (HTML, value sanitisation and the textarea's API value):
  \<^item> \<open><input type="text">\<close> (name, line 748): newlines are stripped;
  \<^item> \<open><input type="email">\<close> (line 767): newlines are stripped, then
    leading and trailing ASCII white space;
  \<^item> \<open><textarea>\<close> (message, line 785): each CR LF pair becomes LF,
    then each remaining CR becomes LF.
\<close>

definition is_newline :: "char \<Rightarrow> bool" where
  "is_newline c \<longleftrightarrow> c = CHR 0x0A \<or> c = CHR 0x0D"

definition is_ascii_ws :: "char \<Rightarrow> bool" where
  "is_ascii_ws c \<longleftrightarrow> c \<in> {CHR 0x09, CHR 0x0A, CHR 0x0C, CHR 0x0D, CHR 0x20}"

definition strip_newlines :: "string \<Rightarrow> string" where
  "strip_newlines s = filter (\<lambda>c. \<not> is_newline c) s"

definition strip_ascii_ws :: "string \<Rightarrow> string" where
  "strip_ascii_ws s = rev (dropWhile is_ascii_ws (rev (dropWhile is_ascii_ws s)))"

fun crlf_to_lf :: "string \<Rightarrow> string" where
  "crlf_to_lf (c # d # cs) =
     (if c = CHR 0x0D \<and> d = CHR 0x0A then CHR 0x0A # crlf_to_lf cs else c # crlf_to_lf (d # cs))"
| "crlf_to_lf cs = cs"

definition normalize_newlines :: "string \<Rightarrow> string" where
  "normalize_newlines s = map (\<lambda>c. if c = CHR 0x0D then CHR 0x0A else c) (crlf_to_lf s)"

definition input_value :: "string \<Rightarrow> string \<Rightarrow> string" where
  "input_value name raw =
     (if name = ''email'' then strip_ascii_ws (strip_newlines raw)
      else if name = ''message'' then normalize_newlines raw
      else strip_newlines raw)"

text \<open>A form object holds, for each field, a value its element's \<open>value\<close> getter can return.\<close>

definition fields_sanitized :: "js_object \<Rightarrow> bool" where
  "fields_sanitized fd \<longleftrightarrow>
     list_all (\<lambda>k. case fd k of None \<Rightarrow> True | Some v \<Rightarrow> input_value k v = v) form_fields"

section \<open>Lemmas\<close>

lemma split_dots_nonempty: "split_dots s \<noteq> []"
  by (induction s) (auto split: list.splits)

lemma at_not_local: "\<not> email_local_char CHR ''@''"
  by (simp add: email_local_char_def is_alnum_def)

lemma at_not_label_char: "\<not> is_alnum CHR ''@''"
  by (simp add: is_alnum_def)

lemma split_dots_chars:
  "c \<in> set s \<Longrightarrow> c \<noteq> CHR ''.'' \<Longrightarrow> \<exists>l \<in> set (split_dots s). c \<in> set l"
proof (induction s)
  case Nil
  then show ?case by simp
next
  case (Cons d ds)
  show ?case
  proof (cases "d = CHR ''.''")
    case True
    with Cons.prems have "c \<in> set ds" by auto
    with Cons.IH Cons.prems(2) True show ?thesis by auto
  next
    case False
    obtain l ls where sd: "split_dots ds = l # ls"
      using split_dots_nonempty by (cases "split_dots ds") auto
    show ?thesis
    proof (cases "c = d")
      case True
      with False sd show ?thesis by simp
    next
      case False
      with Cons.prems have "c \<in> set ds" by simp
      with Cons.IH Cons.prems(2) sd \<open>d \<noteq> CHR ''.''\<close> show ?thesis by auto
    qed
  qed
qed

lemma email_labels_no_at:
  "list_all email_label (split_dots domain) \<Longrightarrow> CHR ''@'' \<notin> set domain"
proof
  assume labels: "list_all email_label (split_dots domain)" and at: "CHR ''@'' \<in> set domain"
  from at obtain l where l: "l \<in> set (split_dots domain)" "CHR ''@'' \<in> set l"
    using split_dots_chars by fastforce
  from labels l(1) have "email_label l" by (simp add: list_all_iff)
  with l(2) show False by (auto simp: email_label_def list_all_iff at_not_label_char)
qed

subsection \<open>Value sanitisation\<close>

lemma strip_newlines_idem: "strip_newlines (strip_newlines s) = strip_newlines s"
  by (simp add: strip_newlines_def)

lemma strip_newlines_id: "\<not> (\<exists>c \<in> set s. is_newline c) \<Longrightarrow> strip_newlines s = s"
  by (auto simp: strip_newlines_def intro: filter_True)

lemma dropWhile_id: "xs = [] \<or> \<not> P (hd xs) \<Longrightarrow> dropWhile P xs = xs"
  by (cases xs) auto

lemma dropWhile_hd: "dropWhile P xs \<noteq> [] \<Longrightarrow> \<not> P (hd (dropWhile P xs))"
  by (induction xs) auto

lemma strip_ascii_ws_ends:
  "strip_ascii_ws s = [] \<or> (\<not> is_ascii_ws (hd (strip_ascii_ws s)) \<and> \<not> is_ascii_ws (last (strip_ascii_ws s)))"
proof -
  let ?t = "dropWhile is_ascii_ws s"
  let ?u = "dropWhile is_ascii_ws (rev ?t)"
  have u_t: "rev ?u \<noteq> [] \<Longrightarrow> hd (rev ?u) = hd ?t"
  proof -
    assume ne: "rev ?u \<noteq> []"
    obtain w where "rev ?t = w @ ?u" using takeWhile_dropWhile_id [of is_ascii_ws "rev ?t"] by metis
    then have "?t = rev ?u @ rev w" by (metis rev_append rev_rev_ident)
    with ne show ?thesis by (metis hd_append2)
  qed
  show ?thesis
  proof (cases "rev ?u = []")
    case True
    then show ?thesis by (simp add: strip_ascii_ws_def)
  next
    case False
    have "?t \<noteq> []"
    proof
      assume t: "?t = []"
      then have "rev ?u = []" by (simp only: t rev.simps(1) dropWhile.simps(1))
      with False show False by contradiction
    qed
    then have "\<not> is_ascii_ws (hd ?t)" by (rule dropWhile_hd)
    moreover have "\<not> is_ascii_ws (hd ?u)"
    proof (rule dropWhile_hd)
      show "?u \<noteq> []" using False by (metis rev.simps(1))
    qed
    ultimately show ?thesis using False u_t by (simp add: strip_ascii_ws_def last_rev)
  qed
qed

lemma strip_ascii_ws_idem: "strip_ascii_ws (strip_ascii_ws s) = strip_ascii_ws s"
proof -
  let ?v = "strip_ascii_ws s"
  have "?v = [] \<or> \<not> is_ascii_ws (hd ?v)" using strip_ascii_ws_ends [of s] by blast
  then have d1: "dropWhile is_ascii_ws ?v = ?v" by (rule dropWhile_id)
  have "rev ?v = [] \<or> \<not> is_ascii_ws (hd (rev ?v))"
    using strip_ascii_ws_ends [of s] by (auto simp: hd_rev)
  then have "dropWhile is_ascii_ws (rev ?v) = rev ?v" by (rule dropWhile_id)
  with d1 show ?thesis by (simp add: strip_ascii_ws_def [of ?v])
qed

lemma set_strip_ascii_ws: "set (strip_ascii_ws s) \<subseteq> set s"
proof
  fix x
  assume "x \<in> set (strip_ascii_ws s)"
  then have "x \<in> set (rev (dropWhile is_ascii_ws s))"
    by (auto simp: strip_ascii_ws_def dest: set_dropWhileD)
  then show "x \<in> set s" by (auto dest: set_dropWhileD)
qed

lemma email_value_idem:
  "strip_ascii_ws (strip_newlines (strip_ascii_ws (strip_newlines s))) = strip_ascii_ws (strip_newlines s)"
proof -
  have "\<not> (\<exists>c \<in> set (strip_ascii_ws (strip_newlines s)). is_newline c)"
    using set_strip_ascii_ws [of "strip_newlines s"] by (auto simp: strip_newlines_def)
  then show ?thesis by (simp add: strip_newlines_id strip_ascii_ws_idem)
qed

lemma crlf_to_lf_no_cr: "CHR 0x0D \<notin> set s \<Longrightarrow> crlf_to_lf s = s"
  by (induction s rule: crlf_to_lf.induct) auto

lemma normalize_newlines_no_cr: "CHR 0x0D \<notin> set (normalize_newlines s)"
  by (auto simp: normalize_newlines_def)

lemma normalize_newlines_idem: "normalize_newlines (normalize_newlines s) = normalize_newlines s"
proof -
  have c: "crlf_to_lf (normalize_newlines s) = normalize_newlines s"
    using normalize_newlines_no_cr by (rule crlf_to_lf_no_cr)
  have "map (\<lambda>c. if c = CHR 0x0D then CHR 0x0A else c) (normalize_newlines s) = normalize_newlines s"
    using normalize_newlines_no_cr [of s] by (intro map_idI) auto
  with c show ?thesis
    by (simp only: normalize_newlines_def [of "normalize_newlines s"])
qed

lemma input_value_idem: "input_value k (input_value k v) = input_value k v"
  by (simp add: input_value_def email_value_idem normalize_newlines_idem strip_newlines_idem)

lemmas input_value_simps = input_value_def strip_ascii_ws_def strip_newlines_def
  normalize_newlines_def is_newline_def is_ascii_ws_def

lemma fields_sanitized_empty_form: "fields_sanitized empty_form"
  by (simp add: fields_sanitized_def form_fields_def empty_form_def input_value_def
      strip_ascii_ws_def strip_newlines_def normalize_newlines_def)

lemma fields_sanitized_update:
  "fields_sanitized fd \<Longrightarrow> fields_sanitized (fd(k \<mapsto> input_value k v))"
  by (auto simp: fields_sanitized_def list_all_iff input_value_idem)

text \<open>
  An address the browser accepts for \<open>type="email"\<close> contains exactly
  one \<open>@\<close>.
\<close>

lemma valid_email_one_at:
  assumes "valid_email s"
  shows "count_list s CHR ''@'' = 1"
proof -
  let ?P = "\<lambda>c. c \<noteq> CHR ''@''"
  from assms have dom: "case dropWhile ?P s of [] \<Rightarrow> False
      | at # domain \<Rightarrow> list_all email_label (split_dots domain)"
    unfolding valid_email_def Let_def by (elim conjE)
  then obtain at domain where rest: "dropWhile ?P s = at # domain"
    and labels: "list_all email_label (split_dots domain)"
    by (cases "dropWhile ?P s") simp_all
  have at: "at = CHR ''@''"
    using hd_dropWhile [of ?P s] rest by simp
  have local: "count_list (takeWhile ?P s) CHR ''@'' = 0"
    by (simp add: count_list_0_iff) (blast dest: set_takeWhileD)
  have domain: "count_list domain CHR ''@'' = 0"
    using email_labels_no_at [OF labels] by (simp add: count_list_0_iff)
  have "s = takeWhile ?P s @ at # domain"
    using takeWhile_dropWhile_id [of ?P s] rest by simp
  then have "count_list s CHR ''@'' = count_list (takeWhile ?P s @ at # domain) CHR ''@''"
    by simp
  also have "\<dots> = 1"
    by (simp only: count_list_append count_list.simps local domain at) simp
  finally show ?thesis .
qed

end
