(* ===== verification/Page.thy ===== *)
theory Page
  imports Navigation Pointer ContactForm FormValidation
begin

text \<open>
  The page as the browser runs it: the component state of PortfolioState,
  the window the listeners read, and the continuations of
  \<open>handleSubmit\<close> still waiting for their timer. One step is one event of
  the single-threaded event loop. Each event calls the handler the JSX or
  the mount effect of src/app/page.tsx attaches to it (lines 59--61 and the
  \<open>onClick\<close>, \<open>onChange\<close>, \<open>onSubmit\<close> props), guarded as the
  rendered page guards it:
  \<^item> the desktop navigation is \<open>hidden md:block\<close> (line 196), so its
    buttons can be clicked only at \<open>innerWidth \<ge> 768\<close>, Tailwind's \<open>md\<close>;
  \<^item> the menu button is \<open>md:hidden\<close> (line 225), and the mobile menu is
    rendered only while \<open>isMenuOpen\<close> (line 266) and is \<open>md:hidden\<close>
    (line 272);
  \<^item> the three inputs are \<open>required\<close> (lines 753, 772, 790) and the
    email input has \<open>type="email"\<close> (line 767), so the browser fires
    \<open>submit\<close> only when \<open>form_valid\<close> holds (theory FormValidation);
  \<^item> an \<open>Input\<close> event carries what the user typed; \<open>handleChange\<close>
    receives the element's sanitised \<open>value\<close> (\<open>input_value\<close>, theory
    FormValidation);
  \<^item> after \<open>handleSubmit\<close>'s synchronous part the browser runs the
    submit event's default action, form navigation, unless the handler
    called \<open>preventDefault\<close>;
  \<^item> the submit button is \<open>disabled={isSubmitting}\<close> (line 799), so
    neither a click nor implicit submission with Enter reaches
    \<open>handleSubmit\<close> while a submission is pending;
  \<^item> a scroll event fires only when the scroll position changes. The browser
    keeps the position in \<open>[0, docHeight - innerHeight]\<close>: after the
    \<open>resize\<close> listener has run, or after the document's height has changed,
    it clamps the position, and fires \<open>scroll\<close> if the position moved.
  \<open>scrollIntoView({behavior: "smooth"})\<close> records a destination. The
  viewport arrives there with \<open>SmoothScrollEnd\<close>, unless a user scroll
  cancels it first. The events an interleaving may put between the two
  halves of \<open>handleSubmit\<close> are the same events as at any other time.
\<close>

section \<open>Definitions\<close>

text \<open>What the listeners read from \<open>window\<close> and \<open>document\<close>.\<close>

record window =
  scrollY :: px
  innerWidth :: px
  innerHeight :: px
  docHeight :: px
  layout :: dom_layout

record page =
  ui :: portfolio
  win :: window
  pending_timers :: nat
  smooth_target :: "px option"

text \<open>The buttons with an \<open>onClick\<close>; a navigation button by its index in the item array.\<close>

datatype button = DesktopNav nat | MobileNav nat | MenuButton | HeroContact | HeroServices

datatype event =
    UserScroll px
  | SmoothScrollEnd
  | MouseMove px px
  | Resize px px
  | Reflow dom_layout px
  | Click button
  | HoverLink bool
  | Input string string
  | SubmitForm
  | TimerFires

text \<open>The item array of both navigation menus (lines 198 and 275).\<close>

definition nav_items :: "section_id list" where
  "nav_items = [''home'', ''about'', ''services'', ''contact'']"

text \<open>Tailwind's \<open>md\<close> variant: \<open>@media (min-width: 768px)\<close>.\<close>

definition md_active :: "window \<Rightarrow> bool" where
  "md_active w \<longleftrightarrow> 768 \<le> innerWidth w"

definition max_scroll :: "window \<Rightarrow> px" where
  "max_scroll w = max 0 (docHeight w - innerHeight w)"

text \<open>The browser moves the viewport; if it moved, the \<open>scroll\<close> listener runs.\<close>

definition scroll_to :: "px \<Rightarrow> page \<Rightarrow> page" where
  "scroll_to y p =
     (let y' = clamp 0 (max_scroll (win p)) y
      in if y' = scrollY (win p) then p
         else p\<lparr>win := (win p)\<lparr>scrollY := y'\<rparr>,
                ui := handleScroll (layout (win p)) y' (ui p)\<rparr>)"

text \<open>The section id a button's \<open>onClick\<close> passes to \<open>scrollToSection\<close>.\<close>

fun button_target :: "button \<Rightarrow> section_id option" where
  "button_target (DesktopNav i) = (if i < length nav_items then Some (nav_items ! i) else None)"
| "button_target (MobileNav i) = (if i < length nav_items then Some (nav_items ! i) else None)"
| "button_target MenuButton = None"
| "button_target HeroContact = Some ''contact''"
| "button_target HeroServices = Some ''services''"

text \<open>Whether the button is on screen and can take a click.\<close>

fun button_visible :: "page \<Rightarrow> button \<Rightarrow> bool" where
  "button_visible p (DesktopNav i) \<longleftrightarrow> md_active (win p) \<and> i < length nav_items"
| "button_visible p (MobileNav i) \<longleftrightarrow>
     isMenuOpen (ui p) \<and> \<not> md_active (win p) \<and> i < length nav_items"
| "button_visible p MenuButton \<longleftrightarrow> \<not> md_active (win p)"
| "button_visible p HeroContact \<longleftrightarrow> True"
| "button_visible p HeroServices \<longleftrightarrow> True"

text \<open>\<open>scrollToSection(id)\<close> and its scroll request.\<close>

definition nav_click :: "section_id \<Rightarrow> page \<Rightarrow> page" where
  "nav_click sectionId p =
     (case scrollToSection (layout (win p)) sectionId (ui p) of
        (s', request) \<Rightarrow>
          p\<lparr>ui := s',
            smooth_target := (case request of None \<Rightarrow> smooth_target p | Some t \<Rightarrow> Some t)\<rparr>)"

fun click :: "page \<Rightarrow> button \<Rightarrow> page" where
  "click p MenuButton = p\<lparr>ui := toggleMenu (ui p)\<rparr>"
| "click p (DesktopNav i) =
     (case button_target (DesktopNav i) of None \<Rightarrow> p | Some sec \<Rightarrow> nav_click sec p)"
| "click p (MobileNav i) =
     (case button_target (MobileNav i) of None \<Rightarrow> p | Some sec \<Rightarrow> nav_click sec p)"
| "click p HeroContact = nav_click ''contact'' p"
| "click p HeroServices = nav_click ''services'' p"

text \<open>The page right after mount, in any window.\<close>

definition page_init :: "window \<Rightarrow> page" where
  "page_init w =
     \<lparr>ui = portfolio_init, win = w\<lparr>scrollY := clamp 0 (max_scroll w) (scrollY w)\<rparr>,
      pending_timers = 0, smooth_target = None\<rparr>"

text \<open>
  The default action of the submit event. The form has no \<open>action\<close> and no
  \<open>method\<close>, so the browser sends a GET to the page's own URL. That loads a
  fresh document: the component mounts again with its initial state, and
  the timers of the old document are gone.
\<close>

definition form_navigation :: "page \<Rightarrow> page" where
  "form_navigation p = page_init (win p)"

fun page_step :: "page \<Rightarrow> event \<Rightarrow> page" where
  "page_step p (UserScroll y) = scroll_to y (p\<lparr>smooth_target := None\<rparr>)"
| "page_step p SmoothScrollEnd =
     (case smooth_target p of
        None \<Rightarrow> p
      | Some t \<Rightarrow> scroll_to t (p\<lparr>smooth_target := None\<rparr>))"
| "page_step p (MouseMove x y) = p\<lparr>ui := handleMouseMove x y (ui p)\<rparr>"
| "page_step p (Resize w h) =
     scroll_to (scrollY (win p))
       (p\<lparr>win := (win p)\<lparr>innerWidth := w, innerHeight := h\<rparr>, ui := handleResize w (ui p)\<rparr>)"
| "page_step p (Reflow doc h) =
     scroll_to (scrollY (win p)) (p\<lparr>win := (win p)\<lparr>layout := doc, docHeight := h\<rparr>\<rparr>)"
| "page_step p (Click b) = (if button_visible p b then click p b else p)"
| "page_step p (HoverLink b) = p\<lparr>ui := setHovering b (ui p)\<rparr>"
| "page_step p (Input name value) =
     (if name \<in> set form_fields then p\<lparr>ui := handleChange name (input_value name value) (ui p)\<rparr> else p)"
| "page_step p SubmitForm =
     (if \<not> isSubmitting (ui p) \<and> form_valid (formData (ui p))
      then (case handleSubmit_sync \<lparr>defaultPrevented = False\<rparr> (ui p) of
              (ev, s') \<Rightarrow>
                if defaultPrevented ev
                then p\<lparr>ui := s', pending_timers := Suc (pending_timers p)\<rparr>
                else form_navigation p)
      else p)"
| "page_step p TimerFires =
     (case pending_timers p of
        0 \<Rightarrow> p
      | Suc n \<Rightarrow> p\<lparr>pending_timers := n, ui := handleSubmit_resume delay_outcome (ui p)\<rparr>)"

fun page_run :: "page \<Rightarrow> event list \<Rightarrow> page" where
  "page_run p [] = p"
| "page_run p (e # es) = page_run (page_step p e) es"

inductive reachable :: "page \<Rightarrow> bool" where
  init: "reachable (page_init w)"
| step: "reachable p \<Longrightarrow> reachable (page_step p e)"

text \<open>What every reachable page keeps true between its fields.\<close>

definition page_inv :: "page \<Rightarrow> bool" where
  "page_inv p \<longleftrightarrow>
     activeSection (ui p) \<in> set tracked_sections \<and>
     dom (formData (ui p)) = set form_fields \<and>
     isSubmitting (ui p) = (pending_timers p = 1) \<and>
     pending_timers p \<le> 1 \<and>
     submitMessage (ui p) \<in> {[], thanks_message}"

text \<open>The scroll position lies where the browser keeps it.\<close>

definition scroll_in_range :: "window \<Rightarrow> bool" where
  "scroll_in_range w \<longleftrightarrow> 0 \<le> scrollY w \<and> scrollY w \<le> max_scroll w"

text \<open>A window wider than 768 pixels never shows an open mobile menu: \<open>handleResize\<close> closed it.\<close>

definition wide_menu_closed :: "page \<Rightarrow> bool" where
  "wide_menu_closed p \<longleftrightarrow> (768 < innerWidth (win p) \<longrightarrow> \<not> isMenuOpen (ui p))"

text \<open>A window of a desktop browser and the events that fill in the form, used by the examples.\<close>

definition example_window :: window where
  "example_window =
     \<lparr>scrollY = 0, innerWidth = 1280, innerHeight = 900, docHeight = 5400,
      layout = [''home'' \<mapsto> (0, 900), ''about'' \<mapsto> (900, 900),
                ''services'' \<mapsto> (1800, 1000), ''contact'' \<mapsto> (4200, 900)]\<rparr>"

definition bad_email_events :: "event list" where
  "bad_email_events = [Input ''name'' ''Ada'', Input ''email'' ''ada'', Input ''message'' ''Hello'']"

definition filled_events :: "event list" where
  "filled_events = [Input ''name'' ''Ada'', Input ''email'' ''ada@example.org'', Input ''message'' ''Hello'']"


section \<open>Lemmas\<close>

lemma nav_items_tracked: "nav_items = tracked_sections"
  by (simp add: nav_items_def tracked_sections_def)

lemma contact_tracked [simp]: "''contact'' \<in> set tracked_sections"
  and services_tracked [simp]: "''services'' \<in> set tracked_sections"
  by (simp_all add: tracked_sections_def)

lemma button_target_tracked: "button_target b = Some sec \<Longrightarrow> sec \<in> set tracked_sections"
  by (cases b) (auto simp: nav_items_tracked split: if_splits)

lemma nav_click_ui: "ui (nav_click sec p) = (ui p)\<lparr>activeSection := sec, isMenuOpen := False\<rparr>"
  by (simp add: nav_click_def scrollToSection_def split: option.splits prod.splits)

lemma nav_click_pending [simp]: "pending_timers (nav_click sec p) = pending_timers p"
  by (simp add: nav_click_def split: prod.splits)

lemma nav_click_win [simp]: "win (nav_click sec p) = win p"
  by (simp add: nav_click_def split: prod.splits)

lemma scroll_to_frame [simp]:
  "formData (ui (scroll_to y p)) = formData (ui p)"
  "isSubmitting (ui (scroll_to y p)) = isSubmitting (ui p)"
  "submitMessage (ui (scroll_to y p)) = submitMessage (ui p)"
  "isMenuOpen (ui (scroll_to y p)) = isMenuOpen (ui p)"
  "cursorPosition (ui (scroll_to y p)) = cursorPosition (ui p)"
  "isHoveringLink (ui (scroll_to y p)) = isHoveringLink (ui p)"
  "pending_timers (scroll_to y p) = pending_timers p"
  "smooth_target (scroll_to y p) = smooth_target p"
  "innerWidth (win (scroll_to y p)) = innerWidth (win p)"
  "innerHeight (win (scroll_to y p)) = innerHeight (win p)"
  "docHeight (win (scroll_to y p)) = docHeight (win p)"
  "layout (win (scroll_to y p)) = layout (win p)"
  by (simp_all add: scroll_to_def Let_def handleScroll_def split: option.splits)

lemma scroll_to_active:
  "activeSection (ui p) \<in> set tracked_sections \<Longrightarrow>
   activeSection (ui (scroll_to y p)) \<in> set tracked_sections"
  by (auto simp: scroll_to_def Let_def intro: handleScroll_tracked)

lemma page_inv_smooth [simp]: "page_inv (p\<lparr>smooth_target := t\<rparr>) = page_inv p"
  by (simp add: page_inv_def)

lemma page_inv_win [simp]: "page_inv (p\<lparr>win := w\<rparr>) = page_inv p"
  by (simp add: page_inv_def)

lemma scroll_to_inv: "page_inv p \<Longrightarrow> page_inv (scroll_to y p)"
  by (simp add: page_inv_def scroll_to_active)

lemma nav_click_inv: "sec \<in> set tracked_sections \<Longrightarrow> page_inv p \<Longrightarrow> page_inv (nav_click sec p)"
  by (simp add: page_inv_def nav_click_ui)

lemma click_inv: "page_inv p \<Longrightarrow> page_inv (click p b)"
proof (cases b)
  case MenuButton
  assume "page_inv p"
  with MenuButton show ?thesis by (simp add: page_inv_def toggleMenu_def)
qed (auto intro: nav_click_inv simp: nav_items_tracked)

lemma page_step_inv: "page_inv p \<Longrightarrow> page_inv (page_step p e)"
proof (cases e)
  case (UserScroll y)
  assume "page_inv p"
  with UserScroll show ?thesis by (simp add: scroll_to_inv)
next
  case SmoothScrollEnd
  assume "page_inv p"
  with SmoothScrollEnd show ?thesis by (simp add: scroll_to_inv split: option.split)
next
  case (Resize w h)
  assume "page_inv p"
  then have "page_inv (p\<lparr>win := (win p)\<lparr>innerWidth := w, innerHeight := h\<rparr>, ui := handleResize w (ui p)\<rparr>)"
    by (simp add: page_inv_def handleResize_def)
  then have "page_inv (page_step p (Resize w h))"
    unfolding page_step.simps by (rule scroll_to_inv)
  with Resize show ?thesis by simp
next
  case (Reflow doc h)
  assume "page_inv p"
  with Reflow show ?thesis by (simp add: scroll_to_inv)
next
  case (Click b)
  assume "page_inv p"
  with Click show ?thesis by (simp add: click_inv)
next
  case (Input name v)
  assume "page_inv p"
  with Input show ?thesis by (simp add: page_inv_def dom_handleChange) (simp add: handleChange_def)
next
  case SubmitForm
  assume "page_inv p"
  with SubmitForm show ?thesis by (auto simp: page_inv_def handleSubmit_start_def)
next
  case TimerFires
  assume "page_inv p"
  with TimerFires show ?thesis
    by (auto simp: page_inv_def handleSubmit_resume_def delay_outcome_def split: nat.split)
qed (simp_all add: page_inv_def handler_defs)

lemma reachable_page_inv: "reachable p \<Longrightarrow> page_inv p"
proof (induction rule: reachable.induct)
  case (init w)
  show ?case by (simp add: page_inv_def page_init_def portfolio_init_def tracked_sections_def)
next
  case (step p e)
  from step.IH show ?case by (rule page_step_inv)
qed

lemma reachable_page_run: "reachable p \<Longrightarrow> reachable (page_run p es)"
  by (induction es arbitrary: p) (auto intro: reachable.step)

lemma example_reachable: "reachable (page_run (page_init example_window) es)"
  by (rule reachable_page_run [OF reachable.init])

lemma example_submitting:
  "isSubmitting (ui (page_run (page_init example_window) (filled_events @ [SubmitForm])))"
  by (simp add: filled_events_def page_init_def portfolio_init_def form_fields_def
      handleChange_def form_valid_def required_filled_def valid_email_def
      email_local_char_def is_alnum_def email_label_def handleSubmit_start_def input_value_simps)

lemma filled_ready:
  "\<not> isSubmitting (ui (page_run (page_init example_window) filled_events)) \<and>
   form_valid (formData (ui (page_run (page_init example_window) filled_events)))"
  by (simp add: filled_events_def page_init_def portfolio_init_def form_fields_def
      handleChange_def form_valid_def required_filled_def valid_email_def
      email_local_char_def is_alnum_def email_label_def input_value_simps)

lemma nav_click_menu_closed: "\<not> isMenuOpen (ui (nav_click sec p))"
  by (simp add: nav_click_ui)

lemma wide_menu_closed_step:
  assumes "wide_menu_closed p"
  shows "wide_menu_closed (page_step p e)"
proof (cases e)
  case (Click b)
  then show ?thesis
    using assms by (cases b) (auto simp: wide_menu_closed_def md_active_def toggleMenu_def nav_click_menu_closed)
qed (use assms in \<open>auto simp: wide_menu_closed_def handler_defs menu_breakpoint_def form_navigation_def
       page_init_def portfolio_init_def split: option.splits nat.splits promise_result.splits\<close>)

lemma click_target:
  "button_target b = Some sec \<Longrightarrow> click p b = nav_click sec p"
  by (cases b) (simp_all split: if_splits)

lemma nav_click_smooth:
  "layout (win p) sec = Some (oTop, h) \<Longrightarrow> smooth_target (nav_click sec p) = Some oTop"
  by (simp add: nav_click_def scrollToSection_def)

lemma max_scroll_nonneg: "0 \<le> max_scroll w"
  by (simp add: max_scroll_def)

lemma scroll_in_range_clamp: "scroll_in_range (w\<lparr>scrollY := clamp 0 (max_scroll w) y\<rparr>)"
  using clamp_bounds [OF max_scroll_nonneg [of w]] by (simp add: scroll_in_range_def max_scroll_def)

lemma scroll_in_range_fixed: "clamp 0 (max_scroll w) y = scrollY w \<Longrightarrow> scroll_in_range w"
  using scroll_in_range_clamp [of w y] by (simp add: scroll_in_range_def max_scroll_def)

lemma scroll_to_in_range: "scroll_in_range (win (scroll_to y p))"
  by (simp add: scroll_to_def Let_def scroll_in_range_clamp scroll_in_range_fixed)

lemma click_win [simp]: "win (click p b) = win p"
  by (cases b) (simp_all add: toggleMenu_def split: option.splits)

lemma page_step_in_range:
  "scroll_in_range (win p) \<Longrightarrow> scroll_in_range (win (page_step p e))"
  by (cases e) (simp_all add: scroll_to_in_range split: option.splits nat.splits)

lemma click_formData [simp]: "formData (ui (click p b)) = formData (ui p)"
  by (cases b) (simp_all add: nav_click_ui toggleMenu_def split: option.splits)

lemma page_step_sanitized:
  "fields_sanitized (formData (ui p)) \<Longrightarrow> fields_sanitized (formData (ui (page_step p e)))"
  by (cases e)
     (simp_all add: handler_defs fields_sanitized_update fields_sanitized_empty_form
       delay_outcome_def split: nat.splits option.splits)

text \<open>C1: in every reachable page the highlighted section is one of the four tracked ids.\<close>

theorem reachable_active_tracked:
  "reachable p \<Longrightarrow> activeSection (ui p) \<in> set tracked_sections"
  by (drule reachable_page_inv) (simp add: page_inv_def)

theorem reachable_active_tracked_witness:
  "reachable (page_run (page_init example_window) [UserScroll 1700]) \<and>
   activeSection (ui (page_run (page_init example_window) [UserScroll 1700])) \<in> set tracked_sections"
  using example_reachable reachable_active_tracked [OF example_reachable] by (rule conjI)

text \<open>
  C6: in every reachable page at most one submission is in flight, and
  \<open>isSubmitting\<close> is true exactly while one is.
\<close>

theorem reachable_single_submission:
  "reachable p \<Longrightarrow> isSubmitting (ui p) = (pending_timers p = 1) \<and> pending_timers p \<le> 1"
  by (drule reachable_page_inv) (simp add: page_inv_def)

theorem reachable_single_submission_witness:
  "reachable (page_run (page_init example_window) (filled_events @ [SubmitForm])) \<and>
   isSubmitting (ui (page_run (page_init example_window) (filled_events @ [SubmitForm]))) =
     (pending_timers (page_run (page_init example_window) (filled_events @ [SubmitForm])) = 1) \<and>
   pending_timers (page_run (page_init example_window) (filled_events @ [SubmitForm])) \<le> 1"
  using example_reachable reachable_single_submission [OF example_reachable] by (rule conjI)

text \<open>
  C10: the \<open>catch\<close> branch of \<open>handleSubmit\<close> is dead: no reachable page
  shows the failure message.
\<close>

theorem reachable_no_failure_message:
  "reachable p \<Longrightarrow> submitMessage (ui p) \<noteq> failure_message"
proof -
  assume "reachable p"
  then have "submitMessage (ui p) \<in> {[], thanks_message}"
    by (drule_tac reachable_page_inv) (simp add: page_inv_def)
  then show ?thesis
    by (auto simp: thanks_ne_failure) (simp add: failure_message_def)
qed

theorem reachable_no_failure_message_witness:
  "reachable (page_run (page_init example_window) (filled_events @ [SubmitForm, TimerFires])) \<and>
   submitMessage (ui (page_run (page_init example_window) (filled_events @ [SubmitForm, TimerFires]))) \<noteq> failure_message"
  using example_reachable reachable_no_failure_message [OF example_reachable] by (rule conjI)

text \<open>C17: in every reachable page the form object has exactly the keys name, email, message.\<close>

theorem reachable_form_keys:
  "reachable p \<Longrightarrow> dom (formData (ui p)) = set form_fields"
  by (drule reachable_page_inv) (simp add: page_inv_def)

theorem reachable_form_keys_witness:
  "reachable (page_run (page_init example_window) filled_events) \<and>
   dom (formData (ui (page_run (page_init example_window) filled_events))) = set form_fields"
  using example_reachable reachable_form_keys [OF example_reachable] by (rule conjI)

text \<open>
  C5: submitting a filled-in form from an idle reachable page sets
  \<open>isSubmitting\<close>, and when the timer fires the page is idle again, shows
  the thank-you message and has all fields empty.
\<close>

theorem submit_success:
  assumes "reachable p" "\<not> isSubmitting (ui p)" "form_valid (formData (ui p))"
  shows "isSubmitting (ui (page_step p SubmitForm)) \<and>
         \<not> isSubmitting (ui (page_run p [SubmitForm, TimerFires])) \<and>
         submitMessage (ui (page_run p [SubmitForm, TimerFires])) = thanks_message \<and>
         formData (ui (page_run p [SubmitForm, TimerFires])) = empty_form"
proof -
  from reachable_page_inv [OF assms(1)] assms(2) have "pending_timers p = 0"
    by (auto simp: page_inv_def)
  with assms(2,3) show ?thesis
    by (simp add: handleSubmit_start_def handleSubmit_resume_Resolved delay_outcome_def)
qed

theorem submit_success_witness:
  "reachable (page_run (page_init example_window) filled_events) \<and>
   \<not> isSubmitting (ui (page_run (page_init example_window) filled_events)) \<and>
   form_valid (formData (ui (page_run (page_init example_window) filled_events))) \<and>
   formData (ui (page_run (page_run (page_init example_window) filled_events) [SubmitForm, TimerFires])) = empty_form"
proof -
  let ?p = "page_run (page_init example_window) filled_events"
  have r: "reachable ?p" by (rule example_reachable)
  from filled_ready have i: "\<not> isSubmitting (ui ?p)" and f: "form_valid (formData (ui ?p))" by simp_all
  from submit_success [OF r i f] r i f show ?thesis by simp
qed

text \<open>C7: while a submission is pending, a further submit event changes nothing.\<close>

theorem submit_blocked_while_pending:
  "isSubmitting (ui p) \<Longrightarrow> page_step p SubmitForm = p"
  by simp

theorem submit_blocked_while_pending_witness:
  "isSubmitting (ui (page_run (page_init example_window) (filled_events @ [SubmitForm]))) \<and>
   page_step (page_run (page_init example_window) (filled_events @ [SubmitForm])) SubmitForm = page_run (page_init example_window) (filled_events @ [SubmitForm])"
  using example_submitting submit_blocked_while_pending [OF example_submitting] by (rule conjI)

text \<open>
  C11: text typed into a field while a submission is pending is discarded when
  the timer fires: the fields are reset to the empty strings.
\<close>

theorem input_during_submit_discarded:
  assumes "reachable p" "isSubmitting (ui p)"
  shows "formData (ui (page_run p [Input name value, TimerFires])) = empty_form"
proof -
  from reachable_page_inv [OF assms(1)] assms(2) have "pending_timers p = 1"
    by (simp add: page_inv_def)
  then show ?thesis
    by (simp add: handleChange_def handleSubmit_resume_Resolved delay_outcome_def)
qed

theorem input_during_submit_discarded_witness:
  "reachable (page_run (page_init example_window) (filled_events @ [SubmitForm])) \<and>
   isSubmitting (ui (page_run (page_init example_window) (filled_events @ [SubmitForm]))) \<and>
   formData (ui (page_run (page_run (page_init example_window) (filled_events @ [SubmitForm])) [Input ''message'' ''one more line'', TimerFires])) =
     empty_form"
  using example_reachable example_submitting
    input_during_submit_discarded [OF example_reachable example_submitting] by blast

text \<open>
  C12: clicking a visible navigation or hero button makes its section active at
  once and closes the mobile menu.
\<close>

theorem click_nav_immediate:
  assumes "button_visible p b" "button_target b = Some sec"
  shows "activeSection (ui (page_step p (Click b))) = sec \<and>
         \<not> isMenuOpen (ui (page_step p (Click b)))"
  using assms by (simp add: click_target nav_click_ui)

theorem click_nav_immediate_witness:
  "button_visible (page_init example_window) HeroServices \<and>
   button_target HeroServices = Some ''services'' \<and>
   activeSection (ui (page_step (page_init example_window) (Click HeroServices))) = ''services'' \<and>
   \<not> isMenuOpen (ui (page_step (page_init example_window) (Click HeroServices)))"
proof -
  have v: "button_visible (page_init example_window) HeroServices" by simp
  have t: "button_target HeroServices = Some ''services''" by simp
  from click_nav_immediate [OF v t] v t show ?thesis by blast
qed

text \<open>Two clicks on the menu button leave the page as it was.\<close>

lemma menu_toggle_twice: "page_run p [Click MenuButton, Click MenuButton] = p"
  by (simp add: toggleMenu_def)

text \<open>
  C14: a resize to a width above 768 closes the mobile menu. It changes
  nothing else of the component state except, when the new viewport moves
  the clamped scroll position, the highlighted section.
\<close>

theorem resize_wide_closes_menu:
  "768 < w \<Longrightarrow>
   (ui (page_step p (Resize w h)))\<lparr>activeSection := activeSection (ui p)\<rparr> = (ui p)\<lparr>isMenuOpen := False\<rparr>"
  unfolding page_step.simps
  by (intro portfolio.equality) (simp_all add: handleResize_def menu_breakpoint_def)

theorem resize_wide_closes_menu_witness:
  "768 < (1024::int) \<and>
   (ui (page_step (page_init example_window) (Resize 1024 700)))\<lparr>activeSection := ''home''\<rparr> =
     (ui (page_init example_window))\<lparr>isMenuOpen := False\<rparr>"
proof -
  have w: "768 < (1024::int)" by simp
  from w resize_wide_closes_menu [OF w, of "page_init example_window" 700] show ?thesis
    by (simp add: page_init_def portfolio_init_def)
qed

text \<open>
  After a click on a navigation button, when the smooth scroll arrives, the
  clicked section is still active, provided the section boxes do not
  overlap, the section lies in the document and is at least one viewport
  high, and the viewport is more than 200 pixels high.
\<close>

lemma nav_click_settles:
  assumes vis: "button_visible p b" and tgt: "button_target b = Some sec"
    and box: "layout (win p) sec = Some (oTop, h)"
    and disj: "layout_disjoint (layout (win p))"
    and geo: "0 \<le> oTop" "oTop + h \<le> docHeight (win p)" "innerHeight (win p) \<le> h"
      "200 < innerHeight (win p)"
  shows "activeSection (ui (page_run p [Click b, SmoothScrollEnd])) = sec"
proof -
  let ?p1 = "nav_click sec p"
  let ?q = "?p1\<lparr>smooth_target := None\<rparr>"
  have run: "page_run p [Click b, SmoothScrollEnd] = scroll_to oTop ?q"
    using vis tgt box by (simp add: click_target nav_click_smooth)
  have clamped: "clamp 0 (max_scroll (win ?q)) oTop = oTop"
    using geo by (simp add: max_scroll_def)
  have sec: "sec \<in> set tracked_sections" using tgt by (rule button_target_tracked)
  show ?thesis
  proof (cases "oTop = scrollY (win ?q)")
    case True
    then show ?thesis unfolding run using clamped by (simp add: scroll_to_def nav_click_ui)
  next
    case False
    have "contains_probe (layout (win ?q)) (oTop + 200) sec"
      using box geo by (simp add: contains_probe_def)
    then have "activeSection (handleScroll (layout (win ?q)) oTop (ui ?q)) = sec"
      using disj sec by (intro handleScroll_disjoint) simp_all
    then show ?thesis unfolding run using clamped False by (simp add: scroll_to_def Let_def)
  qed
qed

text \<open>
  C20: a form whose three fields are all filled in but whose email is not a
  valid address does not submit: the submit event leaves the page unchanged.
\<close>

theorem invalid_email_blocks_submit:
  assumes "formData (ui p) ''email'' = Some e" "\<not> valid_email e"
  shows "page_step p SubmitForm = p"
  using assms by (simp add: form_valid_def)

theorem invalid_email_blocks_submit_witness:
  "required_filled (formData (ui (page_run (page_init example_window) bad_email_events))) \<and>
   formData (ui (page_run (page_init example_window) bad_email_events)) ''email'' = Some ''ada'' \<and>
   \<not> valid_email ''ada'' \<and>
   page_step (page_run (page_init example_window) bad_email_events) SubmitForm = page_run (page_init example_window) bad_email_events"
proof -
  have r: "required_filled (formData (ui (page_run (page_init example_window) bad_email_events)))"
    by (simp add: bad_email_events_def page_init_def portfolio_init_def form_fields_def
        handleChange_def required_filled_def input_value_simps)
  have e: "formData (ui (page_run (page_init example_window) bad_email_events)) ''email'' = Some ''ada''"
    by (simp add: bad_email_events_def page_init_def portfolio_init_def form_fields_def
        handleChange_def input_value_simps)
  have v: "\<not> valid_email ''ada''"
    by (simp add: valid_email_def email_local_char_def is_alnum_def)
  from r e v invalid_email_blocks_submit [OF e v] show ?thesis by blast
qed

text \<open>
  In every reachable page the scroll position is where the browser
  keeps it, between 0 and \<open>docHeight - innerHeight\<close>. This holds after any
  interleaving of user scrolls, smooth scrolls, resizes and reflows, so
  \<open>handleScroll\<close> only ever probes \<open>scrollY + 200\<close> inside that range.
\<close>

lemma reachable_scroll_in_range: "reachable p \<Longrightarrow> scroll_in_range (win p)"
proof (induction rule: reachable.induct)
  case (init w)
  show ?case by (simp add: page_init_def scroll_in_range_clamp)
next
  case (step p e)
  from step.IH show ?case by (rule page_step_in_range)
qed

text \<open>
  In every reachable page each field of the form object holds a value
  its element's \<open>value\<close> getter can return. The name has no line break.
  The email has no line break and no leading or trailing white space. The
  message has no CR.
\<close>

lemma reachable_fields_sanitized: "reachable p \<Longrightarrow> fields_sanitized (formData (ui p))"
proof (induction rule: reachable.induct)
  case (init w)
  show ?case by (simp add: page_init_def portfolio_init_def fields_sanitized_empty_form)
next
  case (step p e)
  from step.IH show ?case by (rule page_step_sanitized)
qed

text \<open>
  C25: a valid submission from an idle page keeps the document.
  \<open>handleSubmit\<close> calls \<open>e.preventDefault()\<close> before anything else
  (line 81), so the form's default action, a GET to the page's own URL
  that would reload it, does not happen. The page is the same page with
  only \<open>isSubmitting\<close> set and the one-second timer pending: the
  scroll position, the menu, the highlighted section and the typed-in
  fields all survive.
\<close>

theorem submit_keeps_document:
  assumes "\<not> isSubmitting (ui p)" and "form_valid (formData (ui p))"
  shows "page_step p SubmitForm =
           p\<lparr>ui := (ui p)\<lparr>isSubmitting := True\<rparr>, pending_timers := Suc (pending_timers p)\<rparr>"
  using assms by (simp add: handleSubmit_start_def)

theorem submit_keeps_document_witness:
  "\<not> isSubmitting (ui (page_run (page_init example_window) filled_events)) \<and>
   form_valid (formData (ui (page_run (page_init example_window) filled_events))) \<and>
   page_step (page_run (page_init example_window) filled_events) SubmitForm =
     (page_run (page_init example_window) filled_events)\<lparr>
       ui := (ui (page_run (page_init example_window) filled_events))\<lparr>isSubmitting := True\<rparr>,
       pending_timers := Suc (pending_timers (page_run (page_init example_window) filled_events))\<rparr>"
proof -
  let ?p = "page_run (page_init example_window) filled_events"
  from filled_ready have i: "\<not> isSubmitting (ui ?p)" and f: "form_valid (formData (ui ?p))" by simp_all
  from i f submit_keeps_document [OF i f] show ?thesis by blast
qed

text \<open>
  C27: in every reachable page whose window is wider than 768 pixels the
  mobile menu is closed. The menu button that opens it is \<open>md:hidden\<close>,
  so it can be clicked only below 768 pixels, and widening the window past
  768 runs \<open>handleResize\<close>, which closes the menu. Together with the
  stale menu at exactly 768 pixels, this pins the breakpoint.
\<close>

theorem reachable_wide_menu_closed:
  assumes "reachable p" and "768 < innerWidth (win p)"
  shows "\<not> isMenuOpen (ui p)"
proof -
  from assms(1) have "wide_menu_closed p"
  proof induction
    case (init w)
    then show ?case by (simp add: wide_menu_closed_def page_init_def portfolio_init_def)
  next
    case (step p e)
    from step.IH show ?case by (rule wide_menu_closed_step)
  qed
  with assms(2) show ?thesis by (simp add: wide_menu_closed_def)
qed

theorem reachable_wide_menu_closed_witness:
  "reachable (page_run (page_init example_window) [Resize 600 800, Click MenuButton, Resize 1024 800]) \<and>
   768 < innerWidth (win (page_run (page_init example_window) [Resize 600 800, Click MenuButton, Resize 1024 800])) \<and>
   \<not> isMenuOpen (ui (page_run (page_init example_window) [Resize 600 800, Click MenuButton, Resize 1024 800]))"
proof -
  let ?p = "page_run (page_init example_window) [Resize 600 800, Click MenuButton, Resize 1024 800]"
  have r: "reachable ?p" by (rule example_reachable)
  have w: "768 < innerWidth (win ?p)" by (simp add: md_active_def)
  from r w reachable_wide_menu_closed [OF r w] show ?thesis by blast
qed

end
