(* ===== verification/JsString.thy ===== *)
theory JsString
  imports Prelude
begin

text \<open>
  The JavaScript string operations the page calls (src/app/page.tsx):
  \<open>String.prototype.includes\<close> (line 839, which chooses the colour of the
  submit message) and \<open>charAt\<close>, \<open>toUpperCase\<close> and \<open>slice\<close> (lines 211
  and 286, which turn a section id into its navigation label). They belong
  to the JavaScript runtime, not to the repository, so they are modelled
  from the ECMAScript definitions, restricted to what the page feeds them:
  ASCII strings. The naive scan of \<open>includes\<close> is proved equal to the
  library's contiguous-sublist relation, and the label function is shown to
  be undone by lowering the first letter.
\<close>

section \<open>\<open>startsWith\<close> and \<open>includes\<close>\<close>

text \<open>\<open>s\<close> starts with \<open>p\<close>: the characters of \<open>p\<close> are those at the head of \<open>s\<close>.\<close>

fun starts_with :: "string \<Rightarrow> string \<Rightarrow> bool" where
  "starts_with s [] = True"
| "starts_with [] (c # cs) = False"
| "starts_with (d # ds) (c # cs) = (d = c \<and> starts_with ds cs)"

text \<open>
  \<open>s.includes(p)\<close>: some position \<open>k \<le> |s|\<close> of \<open>s\<close> starts a copy of
  \<open>p\<close>. The scan tries the positions from the left and stops at the end of
  \<open>s\<close>; the empty search string is found at position 0.
\<close>

fun js_includes :: "string \<Rightarrow> string \<Rightarrow> bool" where
  "js_includes [] p = starts_with [] p"
| "js_includes (d # ds) p = (starts_with (d # ds) p \<or> js_includes ds p)"

section \<open>\<open>charAt\<close>, \<open>toUpperCase\<close>, \<open>slice\<close>\<close>

text \<open>\<open>s.charAt(i)\<close>: the one-character string at \<open>i\<close>, or \<open>""\<close> out of range.\<close>

definition js_charAt :: "string \<Rightarrow> nat \<Rightarrow> string" where
  "js_charAt s i = (if i < length s then [s ! i] else [])"

text \<open>\<open>s.slice(i)\<close> for \<open>i \<ge> 0\<close>: the characters from \<open>i\<close> on (\<open>""\<close> past the end).\<close>

definition js_slice :: "string \<Rightarrow> nat \<Rightarrow> string" where
  "js_slice s i = drop i s"

text \<open>
  Upper- and lower-casing of one character by its code point: the letters
  \<open>a\<close>--\<open>z\<close> (97--122) and \<open>A\<close>--\<open>Z\<close> (65--90) move by 32, every
  other character is kept (Unicode case mapping restricted to ASCII).
\<close>

definition upper_char :: "char \<Rightarrow> char" where
  "upper_char c =
     (let n = of_char c :: nat in if 97 \<le> n \<and> n \<le> 122 then char_of (n - 32) else c)"

definition lower_char :: "char \<Rightarrow> char" where
  "lower_char c =
     (let n = of_char c :: nat in if 65 \<le> n \<and> n \<le> 90 then char_of (n + 32) else c)"

definition js_toUpperCase :: "string \<Rightarrow> string" where
  "js_toUpperCase s = map upper_char s"

text \<open>\<open>item.charAt(0).toUpperCase() + item.slice(1)\<close> (lines 211 and 286).\<close>

definition nav_label :: "section_id \<Rightarrow> string" where
  "nav_label item = js_toUpperCase (js_charAt item 0) @ js_slice item 1"

text \<open>A character is a lower-case ASCII letter.\<close>

definition is_lower :: "char \<Rightarrow> bool" where
  "is_lower c \<longleftrightarrow> (97::nat) \<le> of_char c \<and> of_char c \<le> (122::nat)"

section \<open>Numbers as strings\<close>

text \<open>
  \<open>Number.prototype.toString()\<close> and \<open>String(n)\<close> of an integer-valued
  number well inside \<open>10^21\<close>, where the decimal form is exact: the
  footer's year (line 868) and React's string form of a numeric \<open>key\<close>.
  It is the \<open>string_of_nat\<close> of the IP address library, with JavaScript's
  minus sign. Its recursive equation is taken out of the simp set because it
  unfolds without end on a variable.
\<close>

fun string_of_nat :: "nat \<Rightarrow> string" where
  "string_of_nat n =
     (if n < 10 then [char_of (48 + n)] else string_of_nat (n div 10) @ [char_of (48 + n mod 10)])"

declare string_of_nat.simps [simp del]

definition js_int_to_string :: "int \<Rightarrow> string" where
  "js_int_to_string i =
     (if i < 0 then CHR ''-'' # string_of_nat (nat (- i)) else string_of_nat (nat i))"

text \<open>Reading an integer back: an optional minus sign and one or more decimal digits.\<close>

definition is_digit :: "char \<Rightarrow> bool" where
  "is_digit c \<longleftrightarrow> (let n = of_char c :: nat in 48 \<le> n \<and> n \<le> 57)"

definition digits_value :: "string \<Rightarrow> nat" where
  "digits_value ds = foldl (\<lambda>n c. 10 * n + (of_char c - 48)) 0 ds"

definition read_int :: "string \<Rightarrow> int option" where
  "read_int t =
     (if t \<noteq> [] \<and> hd t = CHR ''-''
      then (if tl t \<noteq> [] \<and> list_all is_digit (tl t) then Some (- int (digits_value (tl t))) else None)
      else (if t \<noteq> [] \<and> list_all is_digit t then Some (int (digits_value t)) else None))"

section \<open>Lemmas\<close>

lemma starts_with_prefix: "starts_with s p \<longleftrightarrow> prefix p s"
  by (induction s p rule: starts_with.induct) auto

lemma nav_label_Cons: "nav_label (c # cs) = upper_char c # cs"
  by (simp add: nav_label_def js_charAt_def js_slice_def js_toUpperCase_def)

lemma nav_label_Nil: "nav_label [] = []"
  by (simp add: nav_label_def js_charAt_def js_slice_def js_toUpperCase_def)

lemma of_char_upper_char:
  "is_lower c \<Longrightarrow> of_char (upper_char c) = (of_char c - 32 :: nat)"
  by (auto simp add: is_lower_def upper_char_def Let_def)

lemma lower_upper_char: "is_lower c \<Longrightarrow> lower_char (upper_char c) = c"
proof -
  assume low: "is_lower c"
  define n where "n = (of_char c :: nat)"
  from low have "97 \<le> n" "n \<le> 122" by (simp_all add: is_lower_def n_def)
  then have n: "65 \<le> n - 32" "n - 32 \<le> 90" "n - 32 + 32 = n" by arith+
  from low have "of_char (upper_char c) = n - 32" by (simp add: of_char_upper_char n_def)
  with n(1,2) have "lower_char (upper_char c) = char_of (n - 32 + 32)"
    by (simp add: lower_char_def Let_def)
  also have "\<dots> = c" by (simp only: n(3)) (simp add: n_def)
  finally show ?thesis .
qed

lemma nav_label_length: "length (nav_label s) = length s"
  by (cases s) (simp_all add: nav_label_Cons nav_label_Nil)

subsection \<open>Numbers as strings\<close>

lemma of_char_digit: "d < 10 \<Longrightarrow> of_char (char_of (48 + d) :: char) = (48 + d :: nat)"
  by (simp add: of_char_of)

lemma is_digit_char: "d < 10 \<Longrightarrow> is_digit (char_of (48 + d :: nat))"
  by (simp add: is_digit_def of_char_digit)

lemma string_of_nat_step:
  "10 \<le> n \<Longrightarrow> string_of_nat n = string_of_nat (n div 10) @ [char_of (48 + n mod 10)]"
  by (simp add: string_of_nat.simps)

lemma string_of_nat_small: "n < 10 \<Longrightarrow> string_of_nat n = [char_of (48 + n)]"
  by (simp add: string_of_nat.simps)

lemma string_of_nat_digits: "list_all is_digit (string_of_nat n)"
proof (induction n rule: string_of_nat.induct)
  case (1 n)
  show ?case
  proof (cases "n < 10")
    case True
    then show ?thesis by (simp add: string_of_nat_small is_digit_char)
  next
    case False
    with 1 show ?thesis by (simp add: string_of_nat_step is_digit_char)
  qed
qed

lemma string_of_nat_nonempty: "string_of_nat n \<noteq> []"
  by (cases "n < 10") (simp_all add: string_of_nat_small string_of_nat_step)

lemma digits_value_string_of_nat: "digits_value (string_of_nat n) = n"
proof (induction n rule: string_of_nat.induct)
  case (1 n)
  show ?case
  proof (cases "n < 10")
    case True
    then show ?thesis by (simp add: string_of_nat_small digits_value_def of_char_digit)
  next
    case False
    with 1 have "digits_value (string_of_nat (n div 10)) = n div 10" by simp
    with False show ?thesis
      by (simp add: string_of_nat_step digits_value_def of_char_digit)
  qed
qed

lemma string_of_nat_inj: "string_of_nat m = string_of_nat n \<Longrightarrow> m = n"
  by (metis digits_value_string_of_nat)

lemma minus_not_digit: "\<not> is_digit CHR ''-''"
  by (simp add: is_digit_def)

lemma read_int_js_int_to_string: "read_int (js_int_to_string i) = Some i"
proof (cases "i < 0")
  case True
  then show ?thesis
    using string_of_nat_digits [of "nat (- i)"] string_of_nat_nonempty [of "nat (- i)"]
    by (simp add: js_int_to_string_def read_int_def digits_value_string_of_nat)
next
  case False
  let ?s = "string_of_nat (nat i)"
  have "?s \<noteq> []" by (rule string_of_nat_nonempty)
  moreover have "list_all is_digit ?s" by (rule string_of_nat_digits)
  ultimately have "hd ?s \<noteq> CHR ''-''"
    using minus_not_digit by (cases ?s) auto
  with False \<open>?s \<noteq> []\<close> \<open>list_all is_digit ?s\<close> show ?thesis
    by (simp add: js_int_to_string_def read_int_def digits_value_string_of_nat)
qed

text \<open>
  \<open>s.includes(p)\<close>, the left-to-right scan, holds exactly when \<open>p\<close>
  occurs as a contiguous block of \<open>s\<close> (the library's \<open>sublist\<close>).
\<close>

lemma js_includes_sublist: "js_includes s p \<longleftrightarrow> sublist p s"
proof (induction s)
  case Nil
  then show ?case by (cases p) auto
next
  case (Cons d ds)
  then show ?case by (simp add: starts_with_prefix sublist_Cons_right)
qed

text \<open>
  The navigation label \<open>item.charAt(0).toUpperCase() + item.slice(1)\<close>
  loses nothing: two ids that start with a lower-case letter and get the
  same label are the same id (lowering the label's first letter gives the
  id back).
\<close>

lemma nav_label_inj:
  assumes "a \<noteq> []" "b \<noteq> []" "is_lower (hd a)" "is_lower (hd b)"
    and "nav_label a = nav_label b"
  shows "a = b"
proof -
  obtain c cs d ds where a: "a = c # cs" and b: "b = d # ds"
    using assms(1,2) by (meson list.exhaust)
  from assms(5) have "upper_char c = upper_char d" "cs = ds"
    by (simp_all add: a b nav_label_Cons)
  then have "lower_char (upper_char c) = lower_char (upper_char d)" by simp
  with assms(3,4) have "c = d" by (simp add: a b lower_upper_char)
  with \<open>cs = ds\<close> show ?thesis by (simp add: a b)
qed

end
