(* ===== verification/View.thy ===== *)
theory View
  imports Page JsString
begin

text \<open>
  The parts of the JSX of src/app/page.tsx (lines 171--873) that depend on
  the component state, as a function \<open>render\<close> from the state to a
  \<open>view\<close> record:
  \<^item> the desktop navigation (lines 196--221): per item, its label, the
    button's class string and the underline's class string;
  \<^item> the icon path of the menu button (lines 224--261);
  \<^item> the mobile menu (lines 263--292), rendered only while \<open>isMenuOpen\<close>;
  \<^item> the values bound to the three inputs, the submit button's
    \<open>disabled\<close> flag and caption, and the status paragraph with its colour
    class (lines 739--846).
  Class strings are the template literals as the code writes them. A
  navigation item is highlighted when its class has \<open>font-bold\<close>, as
  \<open>activeSection === item\<close> adds it. The static sections (about,
  services, skills, projects, contact links, footer) do not depend on the
  state and are not part of the view. Neither \<open>cursorPosition\<close> nor
  \<open>isHoveringLink\<close> is read by any rendering; the last lemma shows it.
\<close>

section \<open>Definitions\<close>

record view =
  desktop_nav :: "(string \<times> string \<times> string) list"
  menu_icon_path :: string
  mobile_menu :: "(string \<times> string) list option"
  field_values :: "string option list"
  submit_disabled :: bool
  submit_label :: string
  status_line :: "(string \<times> string) option"

text \<open>One desktop navigation button (lines 199--218): label, class, underline class.\<close>

definition desktop_nav_entry :: "section_id \<Rightarrow> section_id \<Rightarrow> string \<times> string \<times> string" where
  "desktop_nav_entry active item =
     (nav_label item,
      (if active = item then ''text-white font-bold'' else ''text-white/90'') @
        '' hover:text-green-300 transition-colors duration-300 text-lg font-medium relative group'',
      ''absolute -bottom-1 left-0 w-0 h-0.5 bg-green-400 transition-all duration-300 group-hover:w-full '' @
        (if active = item then ''w-full'' else ''''))"

text \<open>One mobile navigation button (lines 276--287): label and class.\<close>

definition mobile_nav_entry :: "section_id \<Rightarrow> section_id \<Rightarrow> string \<times> string" where
  "mobile_nav_entry active item =
     (nav_label item,
      (if active = item then ''text-green-300 font-bold'' else ''text-white/90'') @
        '' hover:text-green-300 transition-colors duration-300 text-lg font-medium w-full text-left py-2'')"

text \<open>The \<open>d\<close> attribute of the menu button's icon: a cross while open, three bars otherwise.\<close>

definition menu_icon :: "bool \<Rightarrow> string" where
  "menu_icon isOpen = (if isOpen then ''M6 18L18 6M6 6l12 12'' else ''M4 6h16M4 12h16M4 18h16'')"

text \<open>\<open>{submitMessage && <motion.p className={...}>}\<close> (lines 834--846).\<close>

definition status_paragraph :: "string \<Rightarrow> (string \<times> string) option" where
  "status_paragraph msg =
     (if msg = [] then None
      else Some (msg, ''text-sm mt-4 text-center '' @
                      (if js_includes msg ''Thank you'' then ''text-green-400'' else ''text-red-400'')))"

definition render :: "portfolio \<Rightarrow> view" where
  "render s =
     \<lparr>desktop_nav = map (desktop_nav_entry (activeSection s)) nav_items,
      menu_icon_path = menu_icon (isMenuOpen s),
      mobile_menu =
        (if isMenuOpen s then Some (map (mobile_nav_entry (activeSection s)) nav_items) else None),
      field_values = map (formData s) form_fields,
      submit_disabled = isSubmitting s,
      submit_label = (if isSubmitting s then ''Sending...'' else ''Send Message''),
      status_line = status_paragraph (submitMessage s)\<rparr>"

text \<open>A navigation entry is highlighted when its class carries \<open>font-bold\<close>.\<close>

fun nav_highlighted :: "string \<times> string \<times> string \<Rightarrow> bool" where
  "nav_highlighted (lbl, cls, underline) = js_includes cls ''font-bold''"

text \<open>The mobile menu is on screen: rendered and not hidden by \<open>md:hidden\<close>.\<close>

definition mobile_menu_shown :: "page \<Rightarrow> bool" where
  "mobile_menu_shown p \<longleftrightarrow> mobile_menu (render (ui p)) \<noteq> None \<and> \<not> md_active (win p)"

text \<open>
  A page with its pointer state reset: what remains when \<open>cursorPosition\<close>
  and \<open>isHoveringLink\<close> are hidden.
\<close>

definition forget_pointer :: "page \<Rightarrow> page" where
  "forget_pointer p = p\<lparr>ui := (ui p)\<lparr>cursorPosition := (0, 0), isHoveringLink := False\<rparr>\<rparr>"

declare render_def [view_defs] desktop_nav_entry_def [view_defs]
  mobile_nav_entry_def [view_defs] status_paragraph_def [view_defs]

section \<open>Lemmas\<close>

lemma nav_highlighted_entry:
  "nav_highlighted (desktop_nav_entry active item) \<longleftrightarrow> active = item"
  by (simp add: desktop_nav_entry_def)

lemma highlighted_count:
  "active \<in> set nav_items \<Longrightarrow>
   length (filter nav_highlighted (map (desktop_nav_entry active) nav_items)) = 1"
  by (auto simp: nav_items_def nav_highlighted_entry comp_def)

lemma thanks_includes: "js_includes thanks_message ''Thank you''"
  by (simp add: thanks_message_def)

lemma failure_not_includes: "\<not> js_includes failure_message ''Thank you''"
  by (simp add: failure_message_def)

text \<open>
  C18: after a submission settles, the status paragraph shows the message of
  the branch taken: the thank-you text in green when the promise resolved,
  the failure text in red when it was rejected.
\<close>

theorem status_line_settled:
  "status_line (render (handleSubmit_resume Resolved s)) =
     Some (thanks_message, ''text-sm mt-4 text-center text-green-400'') \<and>
   status_line (render (handleSubmit_resume Rejected s)) =
     Some (failure_message, ''text-sm mt-4 text-center text-red-400'')"
proof -
  have "thanks_message \<noteq> []" "failure_message \<noteq> []"
    by (simp_all add: thanks_message_def failure_message_def)
  then show ?thesis
    by (simp add: render_def status_paragraph_def handleSubmit_resume_Resolved
        handleSubmit_resume_Rejected thanks_includes failure_not_includes)
qed

text \<open>
  The pointer state is decorative: the rendered view does not depend on
  \<open>cursorPosition\<close> or \<open>isHoveringLink\<close>.
\<close>

lemma render_ignores_pointer:
  "render (s\<lparr>cursorPosition := c, isHoveringLink := h\<rparr>) = render s"
  by (simp add: render_def)

lemma render_forget_pointer: "render (ui (forget_pointer p)) = render (ui p)"
  by (simp add: forget_pointer_def render_ignores_pointer)

text \<open>One step of the page reads nothing of the pointer state.\<close>

lemma forget_pointer_step:
  "forget_pointer (page_step (forget_pointer p) e) = forget_pointer (page_step p e)"
proof (cases e)
  case (Click b)
  then show ?thesis
    by (cases b) (simp_all add: forget_pointer_def nav_click_def scrollToSection_def toggleMenu_def
        split: option.splits)
qed (simp_all add: forget_pointer_def scroll_to_def Let_def handleScroll_def handler_defs form_navigation_def
      split: option.splits nat.splits promise_result.splits)

lemma forget_pointer_run:
  "forget_pointer p = forget_pointer q \<Longrightarrow> forget_pointer (page_run p es) = forget_pointer (page_run q es)"
proof (induction es arbitrary: p q)
  case (Cons e es)
  have "forget_pointer (page_step p e) = forget_pointer (page_step q e)"
    using forget_pointer_step [of p e] forget_pointer_step [of q e] Cons.prems by simp
  from Cons.IH [OF this] show ?case by simp
qed simp

subsection \<open>Properties\<close>

text \<open>
  C28: the pointer state never influences the page. Two pages that differ
  only in \<open>cursorPosition\<close> and \<open>isHoveringLink\<close> stay that way under
  every sequence of events, and render the same view throughout: no
  handler, guard or piece of JSX reads what \<open>handleMouseMove\<close> and the
  hover callbacks write. Each pointer move still re-renders the component.
\<close>

theorem pointer_noninterference:
  assumes "forget_pointer p = forget_pointer q"
  shows "forget_pointer (page_run p es) = forget_pointer (page_run q es) \<and>
         render (ui (page_run p es)) = render (ui (page_run q es))"
proof
  show eq: "forget_pointer (page_run p es) = forget_pointer (page_run q es)"
    using assms by (rule forget_pointer_run)
  show "render (ui (page_run p es)) = render (ui (page_run q es))"
    using arg_cong [OF eq, of "\<lambda>x. render (ui x)"] by (simp only: render_forget_pointer)
qed

theorem pointer_noninterference_witness:
  "forget_pointer (page_init example_window) =
     forget_pointer (page_run (page_init example_window) [MouseMove 40 300, HoverLink True]) \<and>
   render (ui (page_run (page_init example_window) (filled_events @ [SubmitForm]))) =
   render (ui (page_run (page_run (page_init example_window) [MouseMove 40 300, HoverLink True])
                (filled_events @ [SubmitForm])))"
proof -
  have h: "forget_pointer (page_init example_window) =
     forget_pointer (page_run (page_init example_window) [MouseMove 40 300, HoverLink True])"
    by (simp add: forget_pointer_def handler_defs)
  from h pointer_noninterference [OF h, of "filled_events @ [SubmitForm]"] show ?thesis by blast
qed

end
