(* ===== verification/SubmissionSpec.thy ===== *)
theory SubmissionSpec
  imports Page JsString
begin

text \<open>
  The abstract contract of the contact form's submission: the state machine
  Idle, Submitting, then Succeeded or Failed, and again Submitting on the
  next submit. The spec states it (Section 4.3). It is the inductive relation
  \<open>status_step\<close>. The status of a concrete component state is read off the
  fields the page displays. \<open>isSubmitting\<close> gives the spinner. The text of
  \<open>submitMessage\<close> gives the colour, through the same
  \<open>includes("Thank you")\<close> test as line 839. The main lemma is a simulation:
  every event of a reachable page either leaves the abstract status alone
  or makes one abstract step.
\<close>

section \<open>Definitions\<close>

datatype submission_status = Idle | Submitting | Succeeded | Failed

definition submission_status :: "portfolio \<Rightarrow> submission_status" where
  "submission_status s =
     (if isSubmitting s then Submitting
      else if submitMessage s = [] then Idle
      else if js_includes (submitMessage s) ''Thank you'' then Succeeded
      else Failed)"

inductive status_step :: "submission_status \<Rightarrow> submission_status \<Rightarrow> bool" where
  submit_idle: "status_step Idle Submitting"
| resubmit_succeeded: "status_step Succeeded Submitting"
| resubmit_failed: "status_step Failed Submitting"
| settle_ok: "status_step Submitting Succeeded"
| settle_error: "status_step Submitting Failed"

inductive_cases status_step_from_Submitting: "status_step Submitting t"
inductive_cases status_step_to_Submitting: "status_step s Submitting"

section \<open>Lemmas\<close>

text \<open>Only the submit and timer events touch the two fields the status is read from.\<close>

lemma click_submission_fields:
  "isSubmitting (ui (click p b)) = isSubmitting (ui p) \<and>
   submitMessage (ui (click p b)) = submitMessage (ui p)"
  by (cases b) (simp_all add: toggleMenu_def nav_click_ui split: option.splits)

lemma page_step_submission_frame:
  assumes "e \<noteq> SubmitForm" "e \<noteq> TimerFires"
  shows "submission_status (ui (page_step p e)) = submission_status (ui p)"
  using assms
  by (cases e) (simp_all add: submission_status_def handler_defs click_submission_fields
      split: option.splits)

lemma status_step_Submitting_iff: "status_step s Submitting \<longleftrightarrow> s \<noteq> Submitting"
  by (cases s) (auto intro: status_step.intros elim: status_step_to_Submitting)

lemma status_resume_Resolved [simp]:
  "submission_status (handleSubmit_resume Resolved s) = Succeeded"
  by (simp add: submission_status_def handleSubmit_resume_Resolved thanks_message_def)

text \<open>
  C8: the page refines the abstract submission machine: from a reachable page
  every event either keeps the abstract status or is one step of
  \<open>status_step\<close>.
\<close>

theorem page_step_refines_status:
  assumes "reachable p"
  shows "submission_status (ui (page_step p e)) = submission_status (ui p) \<or>
         status_step (submission_status (ui p)) (submission_status (ui (page_step p e)))"
proof (cases "e = SubmitForm \<or> e = TimerFires")
  case False
  then show ?thesis by (simp add: page_step_submission_frame)
next
  case True
  then show ?thesis
  proof
    assume e: "e = SubmitForm"
    show ?thesis
    proof (cases "\<not> isSubmitting (ui p) \<and> form_valid (formData (ui p))")
      case True
      then have "submission_status (ui (page_step p e)) = Submitting"
        by (simp add: e submission_status_def handleSubmit_start_def)
      moreover from True have "submission_status (ui p) \<noteq> Submitting"
        by (simp add: submission_status_def split: if_splits)
      ultimately show ?thesis by (simp add: status_step_Submitting_iff)
    next
      case False
      then show ?thesis by (auto simp: e)
    qed
  next
    assume e: "e = TimerFires"
    from reachable_page_inv [OF assms]
    have inv: "isSubmitting (ui p) = (pending_timers p = 1)" "pending_timers p \<le> 1"
      by (simp_all add: page_inv_def)
    show ?thesis
    proof (cases "pending_timers p")
      case 0
      then show ?thesis by (simp add: e)
    next
      case (Suc n)
      with inv have "isSubmitting (ui p)" "n = 0" by simp_all
      then have "submission_status (ui p) = Submitting" by (simp add: submission_status_def)
      then show ?thesis
        by (simp add: e Suc delay_outcome_def status_step.settle_ok)
    qed
  qed
qed

theorem page_step_refines_status_witness:
  "reachable (page_run (page_init example_window) (filled_events @ [SubmitForm])) \<and>
   (submission_status (ui (page_step (page_run (page_init example_window) (filled_events @ [SubmitForm])) TimerFires)) =
      submission_status (ui (page_run (page_init example_window) (filled_events @ [SubmitForm]))) \<or>
    status_step (submission_status (ui (page_run (page_init example_window) (filled_events @ [SubmitForm]))))
      (submission_status (ui (page_step (page_run (page_init example_window) (filled_events @ [SubmitForm])) TimerFires))))"
  using example_reachable page_step_refines_status [OF example_reachable] by (rule conjI)

text \<open>
  C9: a pending submission always completes: in a reachable page with a
  submission in flight, the timer event ends it in the Succeeded status.
\<close>

theorem pending_submission_completes:
  assumes "reachable p" "isSubmitting (ui p)"
  shows "submission_status (ui (page_step p TimerFires)) = Succeeded"
proof -
  from reachable_page_inv [OF assms(1)] assms(2) have "pending_timers p = 1"
    by (simp add: page_inv_def)
  then show ?thesis by (simp add: delay_outcome_def)
qed

theorem pending_submission_completes_witness:
  "reachable (page_run (page_init example_window) (filled_events @ [SubmitForm])) \<and>
   isSubmitting (ui (page_run (page_init example_window) (filled_events @ [SubmitForm]))) \<and>
   submission_status (ui (page_step (page_run (page_init example_window) (filled_events @ [SubmitForm])) TimerFires))
     = Succeeded"
  using example_reachable example_submitting
    pending_submission_completes [OF example_reachable example_submitting] by blast

end
