(* ===== verification/PageLayout.thy ===== *)
theory PageLayout
  imports Page
begin

text \<open>
  The geometry of the page: the JSX stacks its blocks in document order
  (src/app/page.tsx, lines 296--870): home, about, services, skills and
  projects (sections without an id), contact, footer. They form a single
  block flow, so each block's \<open>offsetTop\<close> is the sum of the heights
  above it. \<open>stack\<close> computes the boxes of such a flow, and
  \<open>page_layout\<close> is the document the scroll listener sees for given block
  heights. The lemmas show that the boxes of a flow never overlap, so the
  order-independence lemma of ScrollTracker applies to the real page. Two
  properties follow for the page itself. A navigation click is confirmed
  when the smooth scroll arrives, using only what the CSS guarantees
  (\<open>min-h-screen\<close> on the four tracked sections). Scrolling through the
  unnamed sections keeps the previous highlight.
\<close>

section \<open>Definitions\<close>

text \<open>Block flow: each block starts where the previous one ends.\<close>

fun stack :: "px \<Rightarrow> (section_id option \<times> px) list \<Rightarrow> (section_id \<times> element) list" where
  "stack t [] = []"
| "stack t ((None, h) # bs) = stack (t + h) bs"
| "stack t ((Some i, h) # bs) = (i, (t, h)) # stack (t + h) bs"

definition page_blocks :: "section_id option list" where
  "page_blocks =
     [Some ''home'', Some ''about'', Some ''services'', None, None, Some ''contact'', None]"

definition page_layout :: "px list \<Rightarrow> dom_layout" where
  "page_layout hs = map_of (stack 0 (zip page_blocks hs))"

definition tall_sections :: "px list \<Rightarrow> px \<Rightarrow> bool" where
  "tall_sections hs vh \<longleftrightarrow> list_all (\<lambda>(b, h). b = None \<or> vh \<le> h) (zip page_blocks hs)"

text \<open>A desktop window over the page with the given block heights.\<close>

definition layout_window :: "px list \<Rightarrow> window" where
  "layout_window hs =
     \<lparr>scrollY = 0, innerWidth = 1280, innerHeight = 900, docHeight = sum_list hs,
      layout = page_layout hs\<rparr>"

section \<open>Lemmas\<close>

lemma stack_mem_block: "(i, (t', h')) \<in> set (stack t bs) \<Longrightarrow> (Some i, h') \<in> set bs"
  by (induction t bs rule: stack.induct) auto

lemma stack_has: "(Some i, h) \<in> set bs \<Longrightarrow> i \<in> fst ` set (stack t bs)"
  by (induction t bs rule: stack.induct) (auto simp: image_iff)

lemma stack_bounds:
  "list_all (\<lambda>h. 0 \<le> h) (map snd bs) \<Longrightarrow> (i, (t', h')) \<in> set (stack t bs) \<Longrightarrow>
   t \<le> t' \<and> t' + h' \<le> t + sum_list (map snd bs)"
proof (induction t bs rule: stack.induct)
  case (1 t)
  then show ?case by simp
next
  case (2 t h bs)
  then have "t + h \<le> t' \<and> t' + h' \<le> t + h + sum_list (map snd bs)" by simp
  with "2.prems"(1) show ?case by simp
next
  case (3 t j h bs)
  show ?case
  proof (cases "(i, (t', h')) = (j, (t, h))")
    case True
    have "0 \<le> sum_list (map snd bs)"
      using "3.prems"(1) by (intro sum_list_nonneg) (auto simp: list_all_iff)
    with True show ?thesis by simp
  next
    case False
    with "3.prems" have "t + h \<le> t' \<and> t' + h' \<le> t + h + sum_list (map snd bs)"
      by (intro "3.IH") auto
    with "3.prems"(1) show ?thesis by simp
  qed
qed

lemma stack_disjoint:
  "list_all (\<lambda>h. 0 \<le> h) (map snd bs) \<Longrightarrow> (a, ea) \<in> set (stack t bs) \<Longrightarrow>
   (b, eb) \<in> set (stack t bs) \<Longrightarrow> (a, ea) \<noteq> (b, eb) \<Longrightarrow> boxes_disjoint ea eb"
proof (induction t bs arbitrary: a ea b eb rule: stack.induct)
  case (1 t)
  then show ?case by simp
next
  case (2 t h bs)
  then show ?case by simp
next
  case (3 t j h bs)
  have nn: "list_all (\<lambda>h. 0 \<le> h) (map snd bs)" using "3.prems"(1) by simp
  consider "(a, ea) = (j, (t, h))" | "(b, eb) = (j, (t, h))"
    | "(a, ea) \<in> set (stack (t + h) bs)" "(b, eb) \<in> set (stack (t + h) bs)"
    using "3.prems"(2,3) by auto
  then show ?case
  proof cases
    case 1
    with "3.prems"(3,4) have "(b, eb) \<in> set (stack (t + h) bs)" by auto
    with nn have "t + h \<le> fst eb" using stack_bounds [of bs b "fst eb" "snd eb"] by simp
    with 1 show ?thesis by (cases eb) simp
  next
    case 2
    with "3.prems"(2,4) have "(a, ea) \<in> set (stack (t + h) bs)" by auto
    with nn have "t + h \<le> fst ea" using stack_bounds [of bs a "fst ea" "snd ea"] by simp
    with 2 show ?thesis by (cases ea) simp
  next
    case 3
    with nn "3.prems"(4) show ?thesis by (intro "3.IH") simp_all
  qed
qed

lemma map_of_stack_disjoint:
  assumes "list_all (\<lambda>h. 0 \<le> h) (map snd bs)"
  shows "layout_disjoint (map_of (stack t bs))"
  unfolding layout_disjoint_def
proof (intro ballI impI)
  fix a b :: section_id
  assume "a \<in> set tracked_sections" "b \<in> set tracked_sections" "a \<noteq> b"
  show "case (map_of (stack t bs) a, map_of (stack t bs) b) of
          (Some ea, Some eb) \<Rightarrow> boxes_disjoint ea eb | _ \<Rightarrow> True"
  proof (cases "map_of (stack t bs) a"; cases "map_of (stack t bs) b")
    fix ea eb assume "map_of (stack t bs) a = Some ea" "map_of (stack t bs) b = Some eb"
    then have "(a, ea) \<in> set (stack t bs)" "(b, eb) \<in> set (stack t bs)"
      by (simp_all add: map_of_SomeD)
    with assms \<open>a \<noteq> b\<close> show ?thesis
      using \<open>map_of (stack t bs) a = Some ea\<close> \<open>map_of (stack t bs) b = Some eb\<close>
      by (simp add: stack_disjoint)
  qed simp_all
qed

lemma page_layout_box:
  assumes len: "length hs = 7" and nn: "list_all (\<lambda>h. 0 \<le> h) hs"
    and sec: "sec \<in> set tracked_sections"
  obtains oTop h where "page_layout hs sec = Some (oTop, h)" "0 \<le> oTop"
    "oTop + h \<le> sum_list hs" "(Some sec, h) \<in> set (zip page_blocks hs)"
proof -
  have msnd: "map snd (zip page_blocks hs) = hs" using len by (simp add: page_blocks_def)
  have "Some sec \<in> set page_blocks" using sec by (auto simp: tracked_sections_def page_blocks_def)
  then obtain k where k: "k < length page_blocks" "page_blocks ! k = Some sec"
    by (auto simp: in_set_conv_nth)
  have lb: "length page_blocks = 7" by (simp add: page_blocks_def)
  have "zip page_blocks hs ! k \<in> set (zip page_blocks hs)"
    using k(1) len lb by (intro nth_mem) simp
  then have "(Some sec, hs ! k) \<in> set (zip page_blocks hs)"
    using k len lb by simp
  then have "sec \<in> fst ` set (stack 0 (zip page_blocks hs))" by (rule stack_has)
  then obtain e where e: "page_layout hs sec = Some e"
    by (cases "page_layout hs sec") (auto simp: page_layout_def map_of_eq_None_iff)
  obtain oTop h where eq: "e = (oTop, h)" by (cases e)
  from e eq have mem: "(sec, (oTop, h)) \<in> set (stack 0 (zip page_blocks hs))"
    by (simp add: page_layout_def map_of_SomeD)
  from stack_bounds [OF _ mem] nn msnd have "0 \<le> oTop \<and> oTop + h \<le> sum_list hs" by simp
  moreover from mem have "(Some sec, h) \<in> set (zip page_blocks hs)" by (rule stack_mem_block)
  ultimately show ?thesis using that e eq by blast
qed

text \<open>
  C13: on the page's own section order, a click on a navigation or hero
  button is confirmed when the smooth scroll arrives: the clicked section is
  still the active one. The hypotheses are only those the CSS guarantees:
  non-negative block heights, the four tracked sections at least one
  viewport high (\<open>min-h-screen\<close>), and a viewport taller than 200 pixels.
\<close>

theorem nav_click_confirmed:
  assumes lay: "layout (win p) = page_layout hs" and len: "length hs = 7"
    and nn: "list_all (\<lambda>h. 0 \<le> h) hs" and doc: "docHeight (win p) = sum_list hs"
    and vh: "200 < innerHeight (win p)" and tall: "tall_sections hs (innerHeight (win p))"
    and vis: "button_visible p b" and tgt: "button_target b = Some sec"
  shows "activeSection (ui (page_run p [Click b, SmoothScrollEnd])) = sec"
proof -
  have sec: "sec \<in> set tracked_sections" using tgt by (rule button_target_tracked)
  obtain oTop h where box: "page_layout hs sec = Some (oTop, h)" and top: "0 \<le> oTop"
    and bottom: "oTop + h \<le> sum_list hs" and blk: "(Some sec, h) \<in> set (zip page_blocks hs)"
    using page_layout_box [OF len nn sec] by blast
  from tall blk have high: "innerHeight (win p) \<le> h"
    by (auto simp: tall_sections_def list_all_iff)
  have disj: "layout_disjoint (layout (win p))"
    using nn len by (simp add: lay page_layout_def map_of_stack_disjoint page_blocks_def)
  show ?thesis
    using vis tgt disj top vh high box bottom
    by (intro nav_click_settles [where oTop = oTop and h = h]) (simp_all add: lay doc)
qed

theorem nav_click_confirmed_witness:
  "layout (win (page_init (layout_window [900, 900, 1000, 800, 1200, 900, 300]))) =
     page_layout [900, 900, 1000, 800, 1200, 900, 300] \<and>
   tall_sections [900, 900, 1000, 800, 1200, 900, 300] 900 \<and>
   activeSection (ui (page_run (page_init (layout_window [900, 900, 1000, 800, 1200, 900, 300]))
     [Click (DesktopNav 3), SmoothScrollEnd])) = ''contact''"
proof -
  let ?hs = "[900, 900, 1000, 800, 1200, 900, 300] :: px list"
  let ?p = "page_init (layout_window ?hs)"
  have lay: "layout (win ?p) = page_layout ?hs" by (simp add: page_init_def layout_window_def)
  have len: "length ?hs = 7" by simp
  have nn: "list_all (\<lambda>h. 0 \<le> h) ?hs" by simp
  have doc: "docHeight (win ?p) = sum_list ?hs" by (simp add: page_init_def layout_window_def)
  have vh: "200 < innerHeight (win ?p)" by (simp add: page_init_def layout_window_def)
  have tall: "tall_sections ?hs (innerHeight (win ?p))"
    by (simp add: page_init_def layout_window_def tall_sections_def page_blocks_def)
  have vis: "button_visible ?p (DesktopNav 3)"
    by (simp add: page_init_def layout_window_def md_active_def nav_items_def)
  have tgt: "button_target (DesktopNav 3) = Some ''contact''" by (simp add: nav_items_def)
  from nav_click_confirmed [OF lay len nn doc vh tall vis tgt] lay tall show ?thesis
    by (simp add: page_init_def layout_window_def)
qed

text \<open>
  C21: on the page's own section order, while \<open>scrollY + 200\<close> lies in the
  skills or projects block (the two sections without an id), a scroll event
  keeps the active section as it was.
\<close>

theorem scroll_in_unnamed_keeps_active:
  assumes len: "length hs = 7" and nn: "list_all (\<lambda>h. 0 \<le> h) hs"
    and lo: "hs ! 0 + hs ! 1 + hs ! 2 \<le> y + 200"
    and hi: "y + 200 < hs ! 0 + hs ! 1 + hs ! 2 + hs ! 3 + hs ! 4"
  shows "handleScroll (page_layout hs) y s = s"
proof -
  obtain h0 h1 h2 h3 h4 h5 h6 where hs: "hs = [h0, h1, h2, h3, h4, h5, h6]"
    using len by (auto simp: numeral_eq_Suc length_Suc_conv)
  from nn have "0 \<le> h0" "0 \<le> h1" "0 \<le> h2" "0 \<le> h3" "0 \<le> h4" by (simp_all add: hs)
  with lo hi show ?thesis
    by (simp add: hs handleScroll_def scroll_probe_def page_layout_def page_blocks_def
        tracked_sections_def)
qed

theorem scroll_in_unnamed_keeps_active_witness:
  "length [900, 900, 1000, 800, 1200, 900, 300 :: px] = 7 \<and>
   list_all (\<lambda>h. 0 \<le> h) [900, 900, 1000, 800, 1200, 900, 300 :: px] \<and>
   handleScroll (page_layout [900, 900, 1000, 800, 1200, 900, 300]) 3000
     (portfolio_init\<lparr>activeSection := ''services''\<rparr>) =
     portfolio_init\<lparr>activeSection := ''services''\<rparr>"
proof -
  let ?hs = "[900, 900, 1000, 800, 1200, 900, 300] :: px list"
  have len: "length ?hs = 7" by simp
  have nn: "list_all (\<lambda>h. 0 \<le> h) ?hs" by simp
  have lo: "?hs ! 0 + ?hs ! 1 + ?hs ! 2 \<le> 3000 + 200" by simp
  have hi: "3000 + 200 < ?hs ! 0 + ?hs ! 1 + ?hs ! 2 + ?hs ! 3 + ?hs ! 4" by simp
  from len nn scroll_in_unnamed_keeps_active [OF len nn lo hi] show ?thesis by blast
qed

end
