(* ===== verification/Listeners.thy ===== *)
theory Listeners
  imports Page
begin

text \<open>
  The mount effect of src/app/page.tsx (lines 27--68) and the window's
  listener list it edits. The effect creates three new closures on every run:
  \<open>handleScroll\<close>, \<open>handleMouseMove\<close>, \<open>handleResize\<close>. It registers them
  with \<open>window.addEventListener\<close> (lines 59--61). It returns a cleanup that
  removes the same three function objects (lines 63--67). React runs the
  effect once after the first commit, because its dependency list \<open>[]\<close> is
  empty, and runs the cleanup on unmount. Strict mode replays mount, unmount
  and mount.

  The DOM's rules for an event target's listener list:
  \<^item> \<open>addEventListener(type, callback)\<close> appends the pair unless an equal
    pair is already present;
  \<^item> \<open>removeEventListener\<close> removes the equal pair;
  \<^item> dispatch calls the listeners of the event's type in list order.
  A callback is compared by identity. A closure is therefore named by the
  effect run that created it. Listeners that other scripts put on \<open>window\<close>
  are \<open>Foreign\<close>.

  The page theory (Page) calls the three handlers directly from its
  \<open>UserScroll\<close>, \<open>MouseMove\<close> and \<open>Resize\<close> events. This theory shows
  that this is what the window's dispatch does while the effect is mounted,
  and that after unmount no event reaches the component.
\<close>

section \<open>Definitions\<close>

datatype listener =
    HandleScroll nat
  | HandleMouseMove nat
  | HandleResize nat
  | Foreign nat

type_synonym listener_list = "(string \<times> listener) list"

definition addEventListener :: "string \<Rightarrow> listener \<Rightarrow> listener_list \<Rightarrow> listener_list" where
  "addEventListener type callback ls =
     (if (type, callback) \<in> set ls then ls else ls @ [(type, callback)])"

definition removeEventListener :: "string \<Rightarrow> listener \<Rightarrow> listener_list \<Rightarrow> listener_list" where
  "removeEventListener type callback ls = filter (\<lambda>e. e \<noteq> (type, callback)) ls"

text \<open>The three registrations of run \<open>g\<close> of the effect, in the order of lines 59--61.\<close>

definition effect_listeners :: "nat \<Rightarrow> listener_list" where
  "effect_listeners g =
     [(''scroll'', HandleScroll g), (''mousemove'', HandleMouseMove g), (''resize'', HandleResize g)]"

text \<open>
  React's bookkeeping for the effect: the window's listener list, the
  number of runs so far (so each run's closures are new), and the cleanup
  React holds, named by the run that returned it.
\<close>

record effect_state =
  listeners :: listener_list
  effect_runs :: nat
  destroy :: "nat option"

definition mount_effect :: "effect_state \<Rightarrow> effect_state" where
  "mount_effect r =
     (let g = effect_runs r
      in r\<lparr>listeners := fold (\<lambda>(type, cb). addEventListener type cb) (effect_listeners g) (listeners r),
           effect_runs := Suc g,
           destroy := Some g\<rparr>)"

definition effect_cleanup :: "effect_state \<Rightarrow> effect_state" where
  "effect_cleanup r =
     (case destroy r of
        None \<Rightarrow> r
      | Some g \<Rightarrow>
          r\<lparr>listeners := fold (\<lambda>(type, cb). removeEventListener type cb) (effect_listeners g) (listeners r),
            destroy := None\<rparr>)"

text \<open>React's lifecycle of an effect with an empty dependency list: it runs once per mount.\<close>

datatype lifecycle = Mount | Unmount

fun lifecycle_step :: "effect_state \<Rightarrow> lifecycle \<Rightarrow> effect_state" where
  "lifecycle_step r Mount = (if destroy r = None then mount_effect r else r)"
| "lifecycle_step r Unmount = effect_cleanup r"

definition lifecycle_run :: "effect_state \<Rightarrow> lifecycle list \<Rightarrow> effect_state" where
  "lifecycle_run r acts = fold (\<lambda>a r. lifecycle_step r a) acts r"

definition effect_init :: "listener_list \<Rightarrow> effect_state" where
  "effect_init ls0 = \<lparr>listeners = ls0, effect_runs = 0, destroy = None\<rparr>"

definition foreign_only :: "listener_list \<Rightarrow> bool" where
  "foreign_only ls \<longleftrightarrow> list_all (\<lambda>(type, cb). case cb of Foreign n \<Rightarrow> True | _ \<Rightarrow> False) ls"

text \<open>The events the window delivers to these listeners.\<close>

datatype window_event = ScrollEvent | MouseMoveEvent px px | ResizeEvent

fun event_type :: "window_event \<Rightarrow> string" where
  "event_type ScrollEvent = ''scroll''"
| "event_type (MouseMoveEvent x y) = ''mousemove''"
| "event_type ResizeEvent = ''resize''"

text \<open>
  Calling one listener, reading \<open>window\<close> and the event object as the
  closures do. A \<open>mousemove\<close> listener is only ever registered for
  \<open>mousemove\<close>, so it never sees an event without coordinates.
\<close>

fun listener_call :: "window \<Rightarrow> window_event \<Rightarrow> listener \<Rightarrow> portfolio \<Rightarrow> portfolio" where
  "listener_call w ev (HandleScroll g) s = handleScroll (layout w) (scrollY w) s"
| "listener_call w (MouseMoveEvent x y) (HandleMouseMove g) s = handleMouseMove x y s"
| "listener_call w ScrollEvent (HandleMouseMove g) s = s"
| "listener_call w ResizeEvent (HandleMouseMove g) s = s"
| "listener_call w ev (HandleResize g) s = handleResize (innerWidth w) s"
| "listener_call w ev (Foreign n) s = s"

definition dispatchEvent :: "window \<Rightarrow> window_event \<Rightarrow> listener_list \<Rightarrow> portfolio \<Rightarrow> portfolio" where
  "dispatchEvent w ev ls s =
     fold (\<lambda>(type, cb) s. if type = event_type ev then listener_call w ev cb s else s) ls s"

text \<open>The handler the component attaches to each window event.\<close>

fun component_handler :: "window \<Rightarrow> window_event \<Rightarrow> portfolio \<Rightarrow> portfolio" where
  "component_handler w ScrollEvent s = handleScroll (layout w) (scrollY w) s"
| "component_handler w (MouseMoveEvent x y) s = handleMouseMove x y s"
| "component_handler w ResizeEvent s = handleResize (innerWidth w) s"

text \<open>What React's bookkeeping keeps true: the window holds the foreign listeners and, while mounted, the latest run's three.\<close>

definition effect_inv :: "listener_list \<Rightarrow> effect_state \<Rightarrow> bool" where
  "effect_inv ls0 r \<longleftrightarrow>
     (case destroy r of
        None \<Rightarrow> listeners r = ls0
      | Some g \<Rightarrow> g < effect_runs r \<and> listeners r = ls0 @ effect_listeners g)"

text \<open>
  One step of the browser with the window's listener list explicit. A user
  or smooth scroll moves the viewport and dispatches \<open>scroll\<close>;
  \<open>mousemove\<close> and \<open>resize\<close> are dispatched to the list. After a
  resize or a reflow the browser clamps the scroll position and dispatches
  \<open>scroll\<close> if it moved. The other
  events reach the component through JSX props, not window listeners, and
  step as in Page.
\<close>

definition browser_scroll :: "listener_list \<Rightarrow> px \<Rightarrow> page \<Rightarrow> page" where
  "browser_scroll ls y p =
     (let y' = clamp 0 (max_scroll (win p)) y
      in if y' = scrollY (win p) then p
         else (let w' = (win p)\<lparr>scrollY := y'\<rparr>
               in p\<lparr>win := w', ui := dispatchEvent w' ScrollEvent ls (ui p)\<rparr>))"

fun browser_step :: "listener_list \<Rightarrow> page \<Rightarrow> event \<Rightarrow> page" where
  "browser_step ls p (UserScroll y) = browser_scroll ls y (p\<lparr>smooth_target := None\<rparr>)"
| "browser_step ls p SmoothScrollEnd =
     (case smooth_target p of
        None \<Rightarrow> p
      | Some t \<Rightarrow> browser_scroll ls t (p\<lparr>smooth_target := None\<rparr>))"
| "browser_step ls p (MouseMove x y) =
     p\<lparr>ui := dispatchEvent (win p) (MouseMoveEvent x y) ls (ui p)\<rparr>"
| "browser_step ls p (Resize wd h) =
     (let w' = (win p)\<lparr>innerWidth := wd, innerHeight := h\<rparr>
      in browser_scroll ls (scrollY (win p)) (p\<lparr>win := w', ui := dispatchEvent w' ResizeEvent ls (ui p)\<rparr>))"
| "browser_step ls p (Reflow doc h) =
     browser_scroll ls (scrollY (win p)) (p\<lparr>win := (win p)\<lparr>layout := doc, docHeight := h\<rparr>\<rparr>)"
| "browser_step ls p e = page_step p e"

text \<open>
  The component and the browser together: React's lifecycle actions and
  the browser's events interleave in any order. An event is delivered through
  the listener list of the moment. Events that reach the component through JSX
  props are allowed at any time, which only strengthens what is proved.
\<close>

datatype app_action = Life lifecycle | Ev event

fun app_step :: "effect_state \<times> page \<Rightarrow> app_action \<Rightarrow> effect_state \<times> page" where
  "app_step (r, p) (Life a) = (lifecycle_step r a, p)"
| "app_step (r, p) (Ev e) = (r, browser_step (listeners r) p e)"

definition app_run :: "effect_state \<times> page \<Rightarrow> app_action list \<Rightarrow> effect_state \<times> page" where
  "app_run c acts = fold (\<lambda>a c. app_step c a) acts c"

inductive app_reachable :: "listener_list \<Rightarrow> effect_state \<times> page \<Rightarrow> bool" for ls0 where
  start: "app_reachable ls0 (effect_init ls0, page_init w)"
| step: "app_reachable ls0 c \<Longrightarrow> app_reachable ls0 (app_step c a)"

section \<open>Lemmas\<close>

subsection \<open>The listener list\<close>

lemma addEventListener_fresh:
  "(type, cb) \<notin> set ls \<Longrightarrow> addEventListener type cb ls = ls @ [(type, cb)]"
  by (simp add: addEventListener_def)

lemma fold_addEventListener_fresh:
  "distinct es \<Longrightarrow> set es \<inter> set ls = {} \<Longrightarrow>
   fold (\<lambda>(type, cb). addEventListener type cb) es ls = ls @ es"
proof (induction es arbitrary: ls)
  case Nil
  then show ?case by simp
next
  case (Cons e es)
  obtain t c where e: "e = (t, c)" by (cases e)
  from Cons.prems have fresh: "(t, c) \<notin> set ls" by (auto simp: e)
  have "fold (\<lambda>(type, cb). addEventListener type cb) es (ls @ [e]) = (ls @ [e]) @ es"
    using Cons.prems by (intro Cons.IH) auto
  with fresh show ?case by (simp add: e addEventListener_fresh)
qed

lemma fold_removeEventListener:
  "fold (\<lambda>(type, cb). removeEventListener type cb) es ls = filter (\<lambda>e. e \<notin> set es) ls"
  by (induction es arbitrary: ls) (auto simp: removeEventListener_def filter_filter conj_commute)

lemma effect_listeners_distinct: "distinct (effect_listeners g)"
  by (simp add: effect_listeners_def)

lemma foreign_effect_disjoint: "foreign_only ls \<Longrightarrow> set (effect_listeners g) \<inter> set ls = {}"
  by (auto simp: foreign_only_def effect_listeners_def list_all_iff)

lemma filter_foreign_effect:
  "foreign_only ls0 \<Longrightarrow> filter (\<lambda>e. e \<notin> set (effect_listeners g)) ls0 = ls0"
  using foreign_effect_disjoint [of ls0 g] by (intro filter_True) blast

lemma lifecycle_step_inv:
  assumes "foreign_only ls0" and "effect_inv ls0 r"
  shows "effect_inv ls0 (lifecycle_step r a)"
proof (cases a)
  case Mount
  with assms show ?thesis
    by (auto simp: effect_inv_def mount_effect_def Let_def fold_addEventListener_fresh
        effect_listeners_distinct foreign_effect_disjoint split: option.splits)
next
  case Unmount
  with assms show ?thesis
    by (auto simp: effect_inv_def effect_cleanup_def fold_removeEventListener
        filter_foreign_effect split: option.splits)
qed

lemma lifecycle_run_inv:
  "foreign_only ls0 \<Longrightarrow> effect_inv ls0 r \<Longrightarrow> effect_inv ls0 (lifecycle_run r acts)"
  unfolding lifecycle_run_def
  by (induction acts arbitrary: r) (simp_all add: lifecycle_step_inv)

lemma effect_init_inv: "effect_inv ls0 (effect_init ls0)"
  by (simp add: effect_inv_def effect_init_def)

lemma lifecycle_run_snoc: "lifecycle_run r (acts @ [a]) = lifecycle_step (lifecycle_run r acts) a"
  by (simp add: lifecycle_run_def)

subsection \<open>Dispatch\<close>

lemma dispatchEvent_append:
  "dispatchEvent w ev (xs @ ys) s = dispatchEvent w ev ys (dispatchEvent w ev xs s)"
  by (simp add: dispatchEvent_def)

lemma dispatchEvent_foreign: "foreign_only ls \<Longrightarrow> dispatchEvent w ev ls s = s"
proof (induction ls)
  case Nil
  then show ?case by (simp add: dispatchEvent_def)
next
  case (Cons e ls)
  obtain t c where e: "e = (t, c)" by (cases e)
  with Cons.prems obtain n where "c = Foreign n"
    by (cases c) (simp_all add: foreign_only_def)
  with Cons e show ?case by (simp add: dispatchEvent_def foreign_only_def)
qed

lemma dispatchEvent_effect: "dispatchEvent w ev (effect_listeners g) s = component_handler w ev s"
  by (cases ev) (simp_all add: dispatchEvent_def effect_listeners_def)

lemma dispatchEvent_mounted:
  "foreign_only ls0 \<Longrightarrow> dispatchEvent w ev (ls0 @ effect_listeners g) s = component_handler w ev s"
  by (simp add: dispatchEvent_append dispatchEvent_foreign dispatchEvent_effect)

lemma browser_step_mounted:
  assumes "foreign_only ls0"
  shows "browser_step (ls0 @ effect_listeners g) p e = page_step p e"
  using assms
  by (cases e) (simp_all add: browser_scroll_def scroll_to_def Let_def dispatchEvent_mounted
      split: option.splits)

lemma effect_cleanup_destroy [simp]: "destroy (effect_cleanup r) = None"
  by (simp add: effect_cleanup_def split: option.splits)

lemma lifecycle_listeners:
  assumes "foreign_only ls0"
  shows "listeners (lifecycle_run (effect_init ls0) acts) =
           (case destroy (lifecycle_run (effect_init ls0) acts) of
              None \<Rightarrow> ls0
            | Some g \<Rightarrow> ls0 @ effect_listeners g)"
  using lifecycle_run_inv [OF assms effect_init_inv, of acts]
  by (simp add: effect_inv_def split: option.splits)

subsection \<open>The component in the browser\<close>

lemma browser_scroll_in_range: "scroll_in_range (win (browser_scroll ls y p))"
  by (simp add: browser_scroll_def Let_def scroll_in_range_clamp scroll_in_range_fixed)

lemma browser_step_in_range:
  "scroll_in_range (win p) \<Longrightarrow> scroll_in_range (win (browser_step ls p e))"
  by (cases e)
     (simp_all add: browser_scroll_in_range page_step_in_range Let_def split: option.splits nat.splits)

lemma browser_step_foreign_inv:
  assumes "foreign_only ls" and "page_inv p"
  shows "page_inv (browser_step ls p e)"
  using assms page_step_inv [OF assms(2), of e]
  by (cases e) (simp_all add: browser_scroll_def Let_def dispatchEvent_foreign split: option.splits)

lemma app_step_inv:
  assumes "foreign_only ls0" and "effect_inv ls0 r" and "page_inv p"
  shows "effect_inv ls0 (fst (app_step (r, p) a)) \<and> page_inv (snd (app_step (r, p) a))"
proof (cases a)
  case (Life l)
  with assms show ?thesis by (simp add: lifecycle_step_inv)
next
  case (Ev e)
  show ?thesis
  proof (cases "destroy r")
    case None
    with assms(2) have "listeners r = ls0" by (simp add: effect_inv_def)
    with Ev assms show ?thesis by (simp add: browser_step_foreign_inv)
  next
    case (Some g)
    with assms(2) have "listeners r = ls0 @ effect_listeners g" by (simp add: effect_inv_def)
    with Ev assms show ?thesis by (simp add: browser_step_mounted page_step_inv)
  qed
qed

lemma app_step_in_range:
  "scroll_in_range (win (snd c)) \<Longrightarrow> scroll_in_range (win (snd (app_step c a)))"
  by (cases c, cases a) (simp_all add: browser_step_in_range)

lemma app_reachable_run: "app_reachable ls0 c \<Longrightarrow> app_reachable ls0 (app_run c acts)"
  unfolding app_run_def
  by (induction acts arbitrary: c) (simp_all add: app_reachable.step)

subsection \<open>Properties\<close>

text \<open>
  C23: whatever sequence of mounts and unmounts React performs, strict mode's
  replay included, the window's listener list is the list other scripts
  registered, unchanged and in order. While the component is mounted, it is
  followed by exactly the three closures of the latest effect run.
\<close>

theorem lifecycle_listeners_inv:
  "foreign_only ls0 \<Longrightarrow> effect_inv ls0 (lifecycle_run (effect_init ls0) acts)"
  by (rule lifecycle_run_inv) (simp_all add: effect_init_inv)

theorem lifecycle_listeners_inv_witness:
  "foreign_only [(''load'', Foreign 0)] \<and>
   effect_inv [(''load'', Foreign 0)]
     (lifecycle_run (effect_init [(''load'', Foreign 0)]) [Mount, Unmount, Mount])"
  using lifecycle_listeners_inv [of "[(''load'', Foreign 0)]" "[Mount, Unmount, Mount]"]
  by (simp add: foreign_only_def)

text \<open>
  C22: while the effect is mounted, a step of the browser that dispatches
  \<open>scroll\<close>, \<open>mousemove\<close> and \<open>resize\<close> through the window's
  listener list is the step of the page model. Each window event runs its
  handler exactly once, strict mode included.
\<close>

theorem mounted_browser_step:
  assumes "foreign_only ls0"
    and "destroy (lifecycle_run (effect_init ls0) acts) \<noteq> None"
  shows "browser_step (listeners (lifecycle_run (effect_init ls0) acts)) p e = page_step p e"
proof -
  from assms(2) obtain g where "destroy (lifecycle_run (effect_init ls0) acts) = Some g"
    by blast
  then have "listeners (lifecycle_run (effect_init ls0) acts) = ls0 @ effect_listeners g"
    using lifecycle_listeners [OF assms(1), of acts] by simp
  with assms(1) show ?thesis by (simp add: browser_step_mounted)
qed

theorem mounted_browser_step_witness:
  "foreign_only [] \<and> destroy (lifecycle_run (effect_init []) [Mount, Unmount, Mount]) \<noteq> None \<and>
   browser_step (listeners (lifecycle_run (effect_init []) [Mount, Unmount, Mount]))
     (page_init example_window) (Resize 700 900) =
   page_step (page_init example_window) (Resize 700 900)"
proof -
  have m: "destroy (lifecycle_run (effect_init []) [Mount, Unmount, Mount]) \<noteq> None"
    by (simp add: lifecycle_run_def effect_init_def mount_effect_def effect_cleanup_def)
  have f: "foreign_only []" by (simp add: foreign_only_def)
  from f m mounted_browser_step [OF f m] show ?thesis by blast
qed

text \<open>
  C24: once the component is unmounted, or before its effect has run, no
  window event reaches it. Dispatching \<open>scroll\<close>, \<open>mousemove\<close> or
  \<open>resize\<close> leaves the component state as it was.
\<close>

theorem unmounted_no_dispatch:
  assumes "foreign_only ls0"
    and "destroy (lifecycle_run (effect_init ls0) acts) = None"
  shows "dispatchEvent w ev (listeners (lifecycle_run (effect_init ls0) acts)) s = s"
  using lifecycle_listeners [OF assms(1), of acts] assms
  by (simp add: dispatchEvent_foreign)

theorem unmounted_no_dispatch_witness:
  "foreign_only [(''load'', Foreign 0)] \<and>
   destroy (lifecycle_run (effect_init [(''load'', Foreign 0)]) [Mount, Unmount]) = None \<and>
   dispatchEvent (win (page_init example_window)) ScrollEvent
     (listeners (lifecycle_run (effect_init [(''load'', Foreign 0)]) [Mount, Unmount])) portfolio_init =
   portfolio_init"
proof -
  have f: "foreign_only [(''load'', Foreign 0)]" by (simp add: foreign_only_def)
  have u: "destroy (lifecycle_run (effect_init [(''load'', Foreign 0)]) [Mount, Unmount]) = None"
    by (simp add: lifecycle_run_def)
  from f u unmounted_no_dispatch [OF f u] show ?thesis by blast
qed

text \<open>
  The cleanup undoes the effect. After any lifecycle that ends with an
  unmount, the window's listener list is exactly the one before the first
  mount, order included.
\<close>

lemma unmount_restores_listeners:
  "foreign_only ls0 \<Longrightarrow> listeners (lifecycle_run (effect_init ls0) (acts @ [Unmount])) = ls0"
  using lifecycle_listeners [of ls0 "acts @ [Unmount]"] by (simp add: lifecycle_run_snoc)

text \<open>
  C26: for any interleaving of React's mounts and unmounts (strict mode
  included) with browser events, each delivered through the listener list of
  the moment, three invariants hold together:
  \<^item> the listener list is in order;
  \<^item> the component state keeps the page invariant: a tracked section,
    the three form keys, at most one pending submission, and no failure
    message;
  \<^item> the scroll position stays in range.
\<close>

theorem app_reachable_inv:
  assumes "app_reachable ls0 c" and "foreign_only ls0"
  shows "effect_inv ls0 (fst c) \<and> page_inv (snd c) \<and> scroll_in_range (win (snd c))"
  using assms(1)
proof (induction rule: app_reachable.induct)
  case (start w)
  show ?case
    by (simp add: effect_init_inv page_init_def page_inv_def portfolio_init_def
        tracked_sections_def scroll_in_range_clamp)
next
  case (step c a)
  obtain r p where c: "c = (r, p)" by (cases c)
  with step.IH have "effect_inv ls0 r" "page_inv p" "scroll_in_range (win p)" by simp_all
  with assms(2) c show ?case
    using app_step_inv [of ls0 r p a] app_step_in_range [of c a] by simp
qed

theorem app_reachable_inv_witness:
  "app_reachable [(''load'', Foreign 0)]
     (app_run (effect_init [(''load'', Foreign 0)], page_init example_window)
        [Life Mount, Ev (UserScroll 1000), Life Unmount, Ev (UserScroll 3000)]) \<and>
   foreign_only [(''load'', Foreign 0)] \<and>
   effect_inv [(''load'', Foreign 0)]
     (fst (app_run (effect_init [(''load'', Foreign 0)], page_init example_window)
        [Life Mount, Ev (UserScroll 1000), Life Unmount, Ev (UserScroll 3000)])) \<and>
   page_inv (snd (app_run (effect_init [(''load'', Foreign 0)], page_init example_window)
        [Life Mount, Ev (UserScroll 1000), Life Unmount, Ev (UserScroll 3000)])) \<and>
   scroll_in_range (win (snd (app_run (effect_init [(''load'', Foreign 0)], page_init example_window)
        [Life Mount, Ev (UserScroll 1000), Life Unmount, Ev (UserScroll 3000)])))"
proof -
  let ?c = "app_run (effect_init [(''load'', Foreign 0)], page_init example_window)
        [Life Mount, Ev (UserScroll 1000), Life Unmount, Ev (UserScroll 3000)]"
  have r: "app_reachable [(''load'', Foreign 0)] ?c"
    by (rule app_reachable_run) (rule app_reachable.start)
  have f: "foreign_only [(''load'', Foreign 0)]" by (simp add: foreign_only_def)
  from r f app_reachable_inv [OF r f] show ?thesis by blast
qed

end
