(* ===== verification/Content.thy ===== *)
theory Content
  imports JsString FormValidation
begin

text \<open>
  The fixed content of src/app/page.tsx and the JSX that maps it to cards:
  \<^item> the \<open>services\<close> array (lines 124--149) and its cards (lines 472--493);
  \<^item> the \<open>projects\<close> array (lines 151--170) and its cards with image and tag
    chips (lines 565--602);
  \<^item> the about facts (lines 409--442) and the skills (lines 518--540), both
    arrays written inline in the JSX;
  \<^item> the contact entries: three links and a plain location (lines 642--706);
  \<^item> the footer's copyright line, which prints \<open>new Date().getFullYear()\<close>
    (lines 853--871).
  A card keeps what the page shows and what React and framer-motion read:
  the \<open>key\<close> (React compares keys as strings, \<open>key={index}\<close> is
  \<open>String(index)\<close>), the \<open>custom\<close> prop (absent: \<open>None\<close>), the text in document
  order, and the image and chips where the card has them. Emoji are lists of
  Unicode code points. Images are the four static imports of lines 6--9.
  Class strings other than the services' gradient overlay are constant and
  are not kept.
\<close>

section \<open>Definitions\<close>

subsection \<open>The content arrays\<close>

datatype asset = HomeImg | PortfolioImg | DerartuImg | GameImg

type_synonym code_points = "nat list"

record service =
  title :: string
  description :: string
  icon :: code_points
  color :: string

definition services :: "service list" where
  "services =
     [\<lparr>service.title = ''Web Design'',
       description = ''Beautiful, responsive websites tailored to your brand'',
       icon = [0x1F5A5, 0xFE0F], color = ''from-purple-500 to-indigo-500''\<rparr>,
      \<lparr>service.title = ''UI/UX Design'',
       description = ''Intuitive user interfaces with exceptional experiences'',
       icon = [0x1F3A8], color = ''from-pink-500 to-rose-500''\<rparr>,
      \<lparr>service.title = ''Online Game Development'',
       description = ''Interactive browser-based games and applications'',
       icon = [0x1F3AE], color = ''from-green-500 to-emerald-500''\<rparr>,
      \<lparr>service.title = ''Mobile App Development'',
       description = ''Cross-platform mobile applications for iOS and Android'',
       icon = [0x1F4F1], color = ''from-blue-500 to-cyan-500''\<rparr>]"

record project =
  title :: string
  desc :: string
  tags :: "string list"
  image :: asset

definition projects :: "project list" where
  "projects =
     [\<lparr>project.title = ''Personal Portfolio'', desc = ''Modern responsive website with React hooks'',
       tags = [''React'', ''Tailwind''], image = PortfolioImg\<rparr>,
      \<lparr>project.title = ''Derartu Hotel Website'', desc = ''Modern responsive website with React hooks'',
       tags = [''React'', ''Tailwind''], image = DerartuImg\<rparr>,
      \<lparr>project.title = ''Online Game'', desc = ''Interactive browser game with Canvas API'',
       tags = [''JavaScript'', ''HTML5''], image = GameImg\<rparr>]"

record about_fact =
  title :: string
  content :: string
  icon :: code_points

definition about_facts :: "about_fact list" where
  "about_facts =
     [\<lparr>about_fact.title = ''Education'', content = ''Computer Science Degree'', about_fact.icon = [0x1F393]\<rparr>,
      \<lparr>about_fact.title = ''Experience'', content = ''1+ Years in Web Development'',
       about_fact.icon = [0x1F4BC]\<rparr>,
      \<lparr>about_fact.title = ''Projects'', content = ''5+ Completed Projects'', about_fact.icon = [0x1F680]\<rparr>]"

record skill =
  name :: string
  level :: nat

definition skills :: "skill list" where
  "skills =
     [\<lparr>name = ''HTML'', level = 90\<rparr>, \<lparr>name = ''CSS'', level = 85\<rparr>,
      \<lparr>name = ''JavaScript'', level = 80\<rparr>, \<lparr>name = ''React'', level = 75\<rparr>,
      \<lparr>name = ''Next.js'', level = 70\<rparr>, \<lparr>name = ''Tailwind CSS'', level = 85\<rparr>,
      \<lparr>name = ''Git'', level = 70\<rparr>, \<lparr>name = ''TypeScript'', level = 65\<rparr>,
      \<lparr>name = ''Node.js'', level = 60\<rparr>, \<lparr>name = ''Figma'', level = 75\<rparr>]"

subsection \<open>Cards\<close>

record card =
  key :: string
  custom :: "nat option"
  card_icon :: "code_points option"
  texts :: "string list"
  overlay_class :: "string option"
  picture :: "(asset \<times> string) option"
  chips :: "(string \<times> string) list"

text \<open>\<open>services.map((service, index) => ...)\<close>: \<open>key={index}\<close>, \<open>custom={index}\<close>, the gradient overlay.\<close>

definition service_card :: "nat \<Rightarrow> service \<Rightarrow> card" where
  "service_card index s =
     \<lparr>key = string_of_nat index, custom = Some index, card_icon = Some (service.icon s),
      texts = [service.title s, description s],
      overlay_class = Some (''absolute inset-0 bg-gradient-to-br '' @ color s @
                            '' opacity-0 group-hover:opacity-20 transition-opacity duration-500''),
      picture = None, chips = []\<rparr>"

text \<open>\<open>projects.map((project, i) => ...)\<close>: the image with \<open>alt={project.title}\<close>, one chip per tag with \<open>key={j}\<close>.\<close>

definition project_card :: "nat \<Rightarrow> project \<Rightarrow> card" where
  "project_card i p =
     \<lparr>key = string_of_nat i, custom = Some i, card_icon = None,
      texts = [project.title p, desc p],
      overlay_class = None,
      picture = Some (image p, project.title p),
      chips = map (\<lambda>(j, tag). (string_of_nat j, tag)) (enumerate 0 (tags p))\<rparr>"

text \<open>The about facts: \<open>key={index}\<close> and \<open>custom={index + 1}\<close> (lines 426--429).\<close>

definition about_card :: "nat \<Rightarrow> about_fact \<Rightarrow> card" where
  "about_card index f =
     \<lparr>key = string_of_nat index, custom = Some (index + 1), card_icon = Some (about_fact.icon f),
      texts = [about_fact.title f, content f],
      overlay_class = None, picture = None, chips = []\<rparr>"

text \<open>The skills: \<open>key={index}\<close>, \<open>custom={index}\<close>; only the name is shown (lines 530--539).\<close>

definition skill_card :: "nat \<Rightarrow> skill \<Rightarrow> card" where
  "skill_card index k =
     \<lparr>key = string_of_nat index, custom = Some index, card_icon = None, texts = [name k],
      overlay_class = None, picture = None, chips = []\<rparr>"

definition map_indexed :: "(nat \<Rightarrow> 'a \<Rightarrow> card) \<Rightarrow> 'a list \<Rightarrow> card list" where
  "map_indexed f xs = map (\<lambda>(i, x). f i x) (enumerate 0 xs)"

definition service_cards :: "card list" where
  "service_cards = map_indexed service_card services"

definition project_cards :: "card list" where
  "project_cards = map_indexed project_card projects"

definition about_cards :: "card list" where
  "about_cards = map_indexed about_card about_facts"

definition skill_cards :: "card list" where
  "skill_cards = map_indexed skill_card skills"

subsection \<open>Contact entries\<close>

text \<open>
  An \<open><a>\<close> of the contact information (lines 642--706): its attributes,
  its icon, the small caption and the value shown under it. All three links
  set \<open>isHoveringLink\<close> on enter and leave. The phone entry's extra
  \<open>{" "}\<close> text node (line 701) is white space and is not kept.
\<close>

record anchor =
  href :: string
  target :: "string option"
  rel :: "string option"
  aria_label :: string
  link_icon :: code_points
  caption :: string
  shown :: string

datatype contact_entry = Link anchor | Plain code_points string string

definition contact_entries :: "contact_entry list" where
  "contact_entries =
     [Link \<lparr>href = ''mailto:firaolmengistu796@gmail.com'', target = None, rel = None,
            aria_label = ''Send email to firaolmengistu796@gmail.com'', link_icon = [0x2709, 0xFE0F],
            caption = ''Email'', shown = ''firaolmengistu796@gmail.com''\<rparr>,
      Link \<lparr>href = ''https://github.com/firaol1214'', target = Some ''_blank'',
            rel = Some ''noopener noreferrer'', aria_label = ''Visit GitHub profile'',
            link_icon = [0x1F4BB], caption = ''GitHub'', shown = ''github.com/firaol1214''\<rparr>,
      Plain [0x1F4CD] ''Location'' ''Bale Robe, Bole'',
      Link \<lparr>href = ''tel:+251957034895'', target = None, rel = None,
            aria_label = ''Call +251957034895'', link_icon = [0x1F4DE],
            caption = ''Phone'', shown = ''+251957034895''\<rparr>]"

fun entry_anchor :: "contact_entry \<Rightarrow> anchor option" where
  "entry_anchor (Link a) = Some a"
| "entry_anchor (Plain i c v) = None"

definition contact_anchors :: "anchor list" where
  "contact_anchors = List.map_filter entry_anchor contact_entries"

text \<open>The address a link leads to, with its scheme removed (\<open>mailto:\<close>, \<open>tel:\<close>, \<open>https://\<close>).\<close>

definition link_value :: "string \<Rightarrow> string option" where
  "link_value h =
     (if starts_with h ''mailto:'' then Some (drop 7 h)
      else if starts_with h ''tel:'' then Some (drop 4 h)
      else if starts_with h ''https://'' then Some (drop 8 h)
      else None)"

text \<open>A link opened in a new tab must not hand the new page \<open>window.opener\<close>.\<close>

definition opener_safe :: "anchor \<Rightarrow> bool" where
  "opener_safe a \<longleftrightarrow>
     (if target a = Some ''_blank''
      then (case rel a of None \<Rightarrow> False | Some r \<Rightarrow> js_includes r ''noopener'')
      else True)"

subsection \<open>The footer\<close>

definition copyright_suffix :: string where
  "copyright_suffix = '' Firaol Mengistu. All rights reserved.''"

text \<open>\<open>\<copyright> {new Date().getFullYear()} Firaol Mengistu. All rights reserved.\<close> (line 868).\<close>

definition footer_line :: "int \<Rightarrow> string" where
  "footer_line year = [CHR 0xA9, CHR '' ''] @ js_int_to_string year @ copyright_suffix"

text \<open>Reading the year back from a rendered copyright line.\<close>

definition footer_year :: "string \<Rightarrow> int option" where
  "footer_year t =
     (let n = length t - length copyright_suffix
      in if 2 + length copyright_suffix \<le> length t \<and> take 2 t = [CHR 0xA9, CHR '' ''] \<and>
            drop n t = copyright_suffix
         then read_int (drop 2 (take n t)) else None)"

section \<open>Lemmas\<close>

lemma indexed_keys_distinct: "distinct (map (\<lambda>e. string_of_nat (fst e)) (enumerate n xs))"
proof -
  have "map (\<lambda>e. string_of_nat (fst e)) (enumerate n xs) = map string_of_nat [n..<n + length xs]"
    using map_map [of string_of_nat fst "enumerate n xs"] by (simp add: map_fst_enumerate comp_def)
  then show ?thesis
    by (simp add: distinct_map inj_on_def string_of_nat_inj)
qed

lemma map_indexed_keys_distinct:
  assumes "\<And>i x. key (f i x) = string_of_nat i"
  shows "distinct (map key (map_indexed f xs))"
proof -
  have "map key (map_indexed f xs) = map (\<lambda>e. string_of_nat (fst e)) (enumerate 0 xs)"
    by (simp add: map_indexed_def case_prod_beta assms)
  then show ?thesis by (simp add: indexed_keys_distinct)
qed

lemma card_keys [simp]:
  "key (service_card i s) = string_of_nat i" "key (project_card i p) = string_of_nat i"
  "key (about_card i f) = string_of_nat i" "key (skill_card i k) = string_of_nat i"
  by (simp_all add: service_card_def project_card_def about_card_def skill_card_def)

lemma project_chips_distinct: "distinct (map fst (chips (project_card i p)))"
  using indexed_keys_distinct [of 0 "tags p"]
  by (simp add: project_card_def case_prod_beta comp_def)

lemma footer_line_parts:
  "take 2 (footer_line y) = [CHR 0xA9, CHR '' '']"
  "drop (length (footer_line y) - length copyright_suffix) (footer_line y) = copyright_suffix"
  "drop 2 (take (length (footer_line y) - length copyright_suffix) (footer_line y)) = js_int_to_string y"
  by (simp_all add: footer_line_def)

subsection \<open>Properties\<close>

text \<open>
  React's requirement on lists: in every list the page builds with
  \<open>map\<close> and a \<open>key\<close>, sibling keys are distinct. This covers the
  service, project, about and skill cards, and the tag chips of each
  project. \<open>key={index}\<close> becomes the string \<open>String(index)\<close>.
\<close>

lemma page_keys_distinct:
  "distinct (map key service_cards) \<and> distinct (map key project_cards) \<and>
   distinct (map key about_cards) \<and> distinct (map key skill_cards) \<and>
   list_all (\<lambda>c. distinct (map fst (chips c))) project_cards"
proof (intro conjI)
  show "distinct (map key service_cards)"
    unfolding service_cards_def by (rule map_indexed_keys_distinct) simp
  show "distinct (map key project_cards)"
    unfolding project_cards_def by (rule map_indexed_keys_distinct) simp
  show "distinct (map key about_cards)"
    unfolding about_cards_def by (rule map_indexed_keys_distinct) simp
  show "distinct (map key skill_cards)"
    unfolding skill_cards_def by (rule map_indexed_keys_distinct) simp
  show "list_all (\<lambda>c. distinct (map fst (chips c))) project_cards"
    by (auto simp: project_cards_def map_indexed_def list_all_iff project_chips_distinct)
qed

text \<open>
  Every project image has a non-empty \<open>alt\<close> text, and no two project
  images share one, so a screen reader tells the three projects apart.
\<close>

lemma project_images_alt:
  "list_all (\<lambda>c. case picture c of None \<Rightarrow> False | Some (src, alt) \<Rightarrow> alt \<noteq> []) project_cards \<and>
   distinct (map (\<lambda>c. map_option snd (picture c)) project_cards)"
  by (simp add: project_cards_def map_indexed_def projects_def project_card_def)

text \<open>
  Every contact link shows the address it opens. The displayed value is
  the \<open>href\<close> without its \<open>mailto:\<close>, \<open>tel:\<close> or \<open>https://\<close> scheme.
  The advertised e-mail address is one the page's own contact form accepts
  (\<open>valid_email\<close>, theory FormValidation).
\<close>

lemma contact_links_consistent:
  "list_all (\<lambda>a. link_value (href a) = Some (shown a)) contact_anchors \<and>
   list_all (\<lambda>a. if starts_with (href a) ''mailto:'' then valid_email (shown a) else True) contact_anchors"
  by (simp add: contact_anchors_def contact_entries_def link_value_def valid_email_def
      email_local_char_def is_alnum_def email_label_def)

text \<open>
  Every contact link that opens a new tab (\<open>target="_blank"\<close>) has a
  \<open>rel\<close> with \<open>noopener\<close>. The opened page gets no \<open>window.opener\<close>
  and cannot navigate the portfolio's tab.
\<close>

lemma contact_links_opener_safe: "list_all opener_safe contact_anchors"
  by (simp add: contact_anchors_def contact_entries_def opener_safe_def)

text \<open>
  The footer's copyright line names the year \<open>getFullYear\<close> returned.
  Reading the line back gives that year, for every year, negative ones
  included.
\<close>

lemma footer_year_roundtrip: "footer_year (footer_line year) = Some year"
proof -
  have "2 + length copyright_suffix \<le> length (footer_line year)"
    by (simp add: footer_line_def)
  then show ?thesis
    by (simp add: footer_year_def Let_def footer_line_parts read_int_js_int_to_string)
qed

end
