(* ===== verification/Motion.thy ===== *)
theory Motion
  imports Complex_Main Content
begin

text \<open>
  The entrance animation of src/app/page.tsx: the variants objects
  \<open>sectionVariants\<close> and \<open>itemVariants\<close> (lines 110--122). Each section's
  outer \<open>motion.div\<close> starts in \<open>"hidden"\<close> and animates to
  \<open>"visible"\<close>, and its children with \<open>variants={itemVariants}\<close> follow.
  framer-motion resolves the function variant \<open>visible: (i) => ...\<close> with
  the element's \<open>custom\<close> prop. The transition delay is \<open>i * 0.1\<close>
  seconds, so the cards of a grid appear one after another. Four more
  elements are animated by inline props instead: the logo, the mobile
  menu, the form's status paragraph and the footer.

  Numbers are JavaScript numbers restricted to what this code computes: a
  finite value is a rational, and \<open>undefined * 0.1\<close> is \<open>NaN\<close>. The product
  is exact here; doubles round \<open>3 * 0.1\<close> to a neighbour of \<open>0.3\<close>. The
  bounds below are strict, so they also hold for the rounded values.
\<close>

section \<open>Definitions\<close>

datatype js_number = Num rat | NaN

fun js_mul :: "js_number \<Rightarrow> js_number \<Rightarrow> js_number" where
  "js_mul (Num a) (Num b) = Num (a * b)"
| "js_mul NaN b = NaN"
| "js_mul a NaN = NaN"

text \<open>The \<open>custom\<close> prop as the variant function's argument: an absent prop is \<open>undefined\<close>, which multiplies to \<open>NaN\<close>.\<close>

definition custom_value :: "nat option \<Rightarrow> js_number" where
  "custom_value c = (case c of None \<Rightarrow> NaN | Some i \<Rightarrow> Num (of_nat i))"

record motion_target =
  opacity :: rat
  motion_y :: rat

text \<open>A transition: \<open>delay\<close> (seconds; absent means 0) and \<open>duration\<close> (seconds).\<close>

record motion_transition =
  delay :: "js_number option"
  duration :: rat

definition sectionVariants_hidden :: motion_target where
  "sectionVariants_hidden = \<lparr>opacity = 0, motion_y = 50\<rparr>"

definition sectionVariants_visible :: "motion_target \<times> motion_transition" where
  "sectionVariants_visible = (\<lparr>opacity = 1, motion_y = 0\<rparr>, \<lparr>delay = None, duration = 3 / 5\<rparr>)"

definition itemVariants_hidden :: motion_target where
  "itemVariants_hidden = \<lparr>opacity = 0, motion_y = 20\<rparr>"

definition itemVariants_visible :: "js_number \<Rightarrow> motion_target \<times> motion_transition" where
  "itemVariants_visible i =
     (\<lparr>opacity = 1, motion_y = 0\<rparr>, \<lparr>delay = Some (js_mul i (Num (1 / 10))), duration = 1 / 2\<rparr>)"

text \<open>
  The elements with \<open>variants={itemVariants}\<close> of each section, in
  document order, by their \<open>custom\<close> prop:
  \<^item> home: the portrait, the heading, the tagline and the button row
    (lines 307, 326, 334, 342);
  \<^item> about: the heading and the grid (380, 388), then the three facts (426);
  \<^item> services: the heading and the grid (460, 468), then the cards (473);
  \<^item> skills: the heading and the grid (506, 514), then the cards (530);
  \<^item> projects: the heading and the grid (553, 561), then the cards (566);
  \<^item> contact: the heading and the grid (619, 627), then the information,
    availability and form panels with \<open>custom\<close> 0, 1, 2 (633, 710, 731).
\<close>

definition section_items :: "(string \<times> nat option list) list" where
  "section_items =
     [(''home'', [None, None, None, None]),
      (''about'', [None, None] @ map custom about_cards),
      (''services'', [None, None] @ map custom service_cards),
      (''skills'', [None, None] @ map custom skill_cards),
      (''projects'', [None, None] @ map custom project_cards),
      (''contact'', [None, None, Some 0, Some 1, Some 2])]"

definition item_delay :: "nat option \<Rightarrow> js_number option" where
  "item_delay c = delay (snd (itemVariants_visible (custom_value c)))"

text \<open>A staggered element (one with \<open>custom\<close>) starts after a finite delay in \<open>[0, 1)\<close> seconds.\<close>

definition staggered_ok :: "nat option \<Rightarrow> bool" where
  "staggered_ok c \<longleftrightarrow>
     (case c of
        None \<Rightarrow> True
      | Some i \<Rightarrow> (case item_delay c of Some (Num d) \<Rightarrow> 0 \<le> d \<and> d < 1 | _ \<Rightarrow> False))"

text \<open>
  The elements animated by inline props rather than variants. Each
  keyframe object is kept as the list of its properties in source order.
  \<open>exit\<close> is present only on the mobile menu, which sits inside
  \<open>AnimatePresence\<close>. An absent \<open>transition\<close> field is framer-motion's
  default.
\<close>

type_synonym keyframe = "(string \<times> rat) list"

record inline_transition =
  t_delay :: "rat option"
  t_duration :: "rat option"

record inline_motion =
  initial :: keyframe
  animate :: keyframe
  exit_to :: "keyframe option"
  transition :: inline_transition

text \<open>The logo of the header (lines 184--187).\<close>

definition logo_motion :: inline_motion where
  "logo_motion =
     \<lparr>initial = [(''opacity'', 0), (''x'', -20)], animate = [(''opacity'', 1), (''x'', 0)],
      exit_to = None, transition = \<lparr>t_delay = None, t_duration = Some (1 / 2)\<rparr>\<rparr>"

text \<open>The mobile menu (lines 267--271).\<close>

definition mobile_menu_motion :: inline_motion where
  "mobile_menu_motion =
     \<lparr>initial = [(''opacity'', 0), (''y'', -20)], animate = [(''opacity'', 1), (''y'', 0)],
      exit_to = Some [(''opacity'', 0), (''y'', -20)],
      transition = \<lparr>t_delay = None, t_duration = Some (3 / 10)\<rparr>\<rparr>"

text \<open>The status paragraph of the form (lines 835--837), without a \<open>transition\<close> prop.\<close>

definition status_motion :: inline_motion where
  "status_motion =
     \<lparr>initial = [(''opacity'', 0), (''y'', 10)], animate = [(''opacity'', 1), (''y'', 0)],
      exit_to = None, transition = \<lparr>t_delay = None, t_duration = None\<rparr>\<rparr>"

text \<open>The footer's content (lines 855--858).\<close>

definition footer_motion :: inline_motion where
  "footer_motion =
     \<lparr>initial = [(''opacity'', 0)], animate = [(''opacity'', 1)],
      exit_to = None, transition = \<lparr>t_delay = Some (1 / 2), t_duration = None\<rparr>\<rparr>"

text \<open>The resting layout: fully opaque and not displaced.\<close>

definition at_rest :: "keyframe \<Rightarrow> bool" where
  "at_rest k \<longleftrightarrow> list_all (\<lambda>(prop, v). v = (if prop = ''opacity'' then 1 else 0)) k"

text \<open>An inline animation that starts from its \<open>initial\<close> keyframe, settles in the resting layout, and leaves through its \<open>exit\<close> keyframe if any.\<close>

definition motion_settles :: "inline_motion \<Rightarrow> bool" where
  "motion_settles m \<longleftrightarrow>
     map fst (initial m) = map fst (animate m) \<and> at_rest (animate m) \<and>
     (case exit_to m of None \<Rightarrow> True | Some k \<Rightarrow> map fst k = map fst (animate m))"

definition inline_motions :: "inline_motion list" where
  "inline_motions = [logo_motion, mobile_menu_motion, status_motion, footer_motion]"

section \<open>Lemmas\<close>

lemma item_delay_Some: "item_delay (Some i) = Some (Num (of_nat i / 10))"
  by (simp add: item_delay_def itemVariants_visible_def custom_value_def)

lemma item_delay_None: "item_delay None = Some NaN"
  by (simp add: item_delay_def itemVariants_visible_def custom_value_def)

lemma staggered_ok_Some: "staggered_ok (Some i) \<longleftrightarrow> i < 10"
  by (simp add: staggered_ok_def item_delay_Some)

lemma staggered_ok_None: "staggered_ok None"
  by (simp add: staggered_ok_def)

text \<open>
  Every inline animation ends in the resting layout and animates exactly the
  properties it starts from, so no element is left transparent or displaced.
  The mobile menu leaves the way it came in.
\<close>

lemma inline_motions_settle:
  "list_all motion_settles inline_motions \<and> exit_to mobile_menu_motion = Some (initial mobile_menu_motion)"
  by (simp add: inline_motions_def motion_settles_def at_rest_def logo_motion_def mobile_menu_motion_def
      status_motion_def footer_motion_def)

lemma map_custom_indexed:
  assumes "\<And>i x. custom (f i x) = Some (i + k)"
  shows "map custom (map_indexed f xs) = map (\<lambda>i. Some (i + k)) [0..<length xs]"
proof -
  have "map custom (map_indexed f xs) = map (\<lambda>e. Some (fst e + k)) (enumerate 0 xs)"
    by (simp add: map_indexed_def case_prod_beta assms)
  also have "\<dots> = map (\<lambda>i. Some (i + k)) [0..<length xs]"
    using map_map [of "\<lambda>i. Some (i + k)" fst "enumerate 0 xs"] by (simp add: map_fst_enumerate comp_def)
  finally show ?thesis .
qed

lemma cards_custom:
  "map custom service_cards = [Some 0, Some 1, Some 2, Some 3]"
  "map custom project_cards = [Some 0, Some 1, Some 2]"
  "map custom about_cards = [Some 1, Some 2, Some 3]"
  "map custom skill_cards = map Some [0, 1, 2, 3, 4, 5, 6, 7, 8, 9]"
  by (simp_all only: service_cards_def project_cards_def about_cards_def skill_cards_def)
     (simp_all add: map_custom_indexed [where k = 0] map_custom_indexed [where k = 1]
       service_card_def project_card_def about_card_def skill_card_def
       services_def projects_def about_facts_def skills_def upt_rec)

subsection \<open>Properties\<close>

text \<open>
  The entrance stagger of every section. Each element with a
  \<open>custom\<close> prop starts after a finite delay in \<open>[0, 1)\<close> seconds; the
  last one is the tenth skill at 0.9 s. Within a section the delays grow
  strictly in document order, so the cards appear in reading order.
\<close>

lemma stagger_schedule:
  "list_all (\<lambda>(sec, cs). list_all staggered_ok cs \<and> sorted_wrt (<) (List.map_filter id cs)) section_items"
  by (simp add: section_items_def cards_custom staggered_ok_Some staggered_ok_None)

text \<open>
  An element with \<open>variants={itemVariants}\<close> and no \<open>custom\<close> prop
  resolves \<open>visible\<close> with \<open>i = undefined\<close>, so its transition delay is
  \<open>NaN\<close>. Fourteen elements of the page are like this: every section
  heading, every grid wrapper, and the four items of the home section.
\<close>

lemma uncustomed_items_nan:
  "item_delay None = Some NaN \<and>
   length (filter (\<lambda>c. c = None) (concat (map snd section_items))) = 14"
  by (simp add: item_delay_None section_items_def cards_custom)

end
