(* ===== verification/EventQueue.thy ===== *)
theory EventQueue
  imports Page "HOL-Library.While_Combinator"
begin

text \<open>
  The deferred work of src/app/page.tsx, run by the browser's event loop:
  the \<open>setTimeout(resolve, 1000)\<close> of each pending \<open>handleSubmit\<close>
  (line 85) and the smooth scroll that \<open>scrollIntoView\<close> starts (line
  102). While either is pending, the loop takes the next task and runs it
  as a \<open>page_step\<close>. \<open>drain\<close> is that loop as a \<open>while_option\<close>. It is
  \<open>None\<close> if the loop never stops. \<open>drain_terminates\<close> shows it always stops,
  after exactly as many tasks as were pending. This is a fact of the
  browser's loop: the handlers never touch the pending work.

  Which of two pending tasks the browser runs first depends on timing.
  \<open>timer_commutes\<close> shows the order does not matter. The \<open>handleSubmit\<close>
  continuation commutes with every event that is not an input or a
  submission: scrolls, smooth-scroll ends, pointer moves, hovers, resizes,
  reflows and clicks.
\<close>

section \<open>Definitions\<close>

definition pending_work :: "page \<Rightarrow> bool" where
  "pending_work p \<longleftrightarrow> 0 < pending_timers p \<or> smooth_target p \<noteq> None"

definition next_task :: "page \<Rightarrow> event" where
  "next_task p = (if 0 < pending_timers p then TimerFires else SmoothScrollEnd)"

definition drain :: "page \<Rightarrow> page option" where
  "drain p = while_option pending_work (\<lambda>q. page_step q (next_task q)) p"

text \<open>The number of pending tasks.\<close>

definition work_left :: "page \<Rightarrow> nat" where
  "work_left p = pending_timers p + (if smooth_target p = None then 0 else 1)"

text \<open>The loop's invariant: the page is the start page after some internal tasks, one per unit of work done.\<close>

definition drained_from :: "page \<Rightarrow> page \<Rightarrow> bool" where
  "drained_from p q \<longleftrightarrow>
     (\<exists>es. q = page_run p es \<and> set es \<subseteq> {TimerFires, SmoothScrollEnd} \<and>
           length es + work_left q = work_left p)"

text \<open>The events that touch the form's submission state.\<close>

fun form_event :: "event \<Rightarrow> bool" where
  "form_event (Input name value) = True"
| "form_event SubmitForm = True"
| "form_event TimerFires = True"
| "form_event e = False"

section \<open>Lemmas\<close>

lemma page_run_snoc: "page_run p (es @ [e]) = page_step (page_run p es) e"
  by (induction es arbitrary: p) simp_all

lemma work_left_zero: "\<not> pending_work q \<Longrightarrow> work_left q = 0"
  by (simp add: pending_work_def work_left_def)

lemma work_left_one_less:
  "pending_work q \<Longrightarrow> Suc (work_left (page_step q (next_task q))) = work_left q"
proof (cases "0 < pending_timers q")
  case True
  then obtain n where "pending_timers q = Suc n" by (cases "pending_timers q") simp_all
  with True show ?thesis by (simp add: next_task_def work_left_def)
next
  case False
  assume "pending_work q"
  with False obtain t where "smooth_target q = Some t" by (auto simp: pending_work_def)
  with False show ?thesis by (simp add: next_task_def work_left_def)
qed

lemma next_task_internal: "next_task q \<in> {TimerFires, SmoothScrollEnd}"
  by (simp add: next_task_def)

lemma drained_from_refl: "drained_from p p"
  unfolding drained_from_def by (rule exI [of _ "[]"]) simp

lemma drained_from_step:
  assumes "drained_from p q" and "pending_work q"
  shows "drained_from p (page_step q (next_task q))"
proof -
  from assms(1) obtain es where es: "q = page_run p es" "set es \<subseteq> {TimerFires, SmoothScrollEnd}"
    "length es + work_left q = work_left p"
    by (auto simp: drained_from_def)
  let ?es = "es @ [next_task q]"
  have "page_step q (next_task q) = page_run p ?es" by (simp add: es(1) page_run_snoc)
  moreover have "set ?es \<subseteq> {TimerFires, SmoothScrollEnd}" using es(2) next_task_internal by auto
  moreover have "length ?es + work_left (page_step q (next_task q)) = work_left p"
    using es(3) work_left_one_less [OF assms(2)] by simp
  ultimately show ?thesis unfolding drained_from_def by blast
qed

lemma click_pending_timers [simp]: "pending_timers (click p b) = pending_timers p"
  by (cases b) (simp_all add: toggleMenu_def split: option.splits)

lemma button_visible_resume [simp]:
  "button_visible (p\<lparr>pending_timers := n, ui := handleSubmit_resume r (ui p)\<rparr>) b = button_visible p b"
  by (cases b) (simp_all add: handleSubmit_resume_def split: promise_result.splits)

lemma click_resume:
  "click (p\<lparr>pending_timers := n, ui := handleSubmit_resume r (ui p)\<rparr>) b =
   (click p b)\<lparr>pending_timers := n, ui := handleSubmit_resume r (ui (click p b))\<rparr>"
  by (cases b)
     (simp_all add: handleSubmit_resume_def nav_click_def scrollToSection_def toggleMenu_def
       split: option.splits promise_result.splits)

lemma drain_Some: "\<exists>q. drain p = Some q"
  unfolding drain_def
proof (rule measure_while_option_Some [where P = "drained_from p" and f = work_left])
  fix q
  assume "drained_from p q" and "pending_work q"
  then show "drained_from p (page_step q (next_task q)) \<and>
             work_left (page_step q (next_task q)) < work_left q"
    using drained_from_step work_left_one_less by fastforce
qed (rule drained_from_refl)

subsection \<open>Properties\<close>

text \<open>
  The deferred work always completes. From any page, the browser's loop
  over the pending submit timers and the pending smooth scroll stops. It
  leaves nothing pending, and it has run exactly one internal task per unit
  of pending work.
\<close>

lemma drain_terminates:
  "\<exists>q. drain p = Some q \<and> \<not> pending_work q \<and>
       (\<exists>es. q = page_run p es \<and> set es \<subseteq> {TimerFires, SmoothScrollEnd} \<and> length es = work_left p)"
proof -
  obtain q where q: "drain p = Some q" using drain_Some by blast
  have stop: "\<not> pending_work q"
    using q unfolding drain_def by (rule while_option_stop)
  have "drained_from p q"
    by (rule while_option_rule [where P = "drained_from p", OF _ q [unfolded drain_def]])
       (simp_all add: drained_from_step drained_from_refl)
  with stop have "\<exists>es. q = page_run p es \<and> set es \<subseteq> {TimerFires, SmoothScrollEnd} \<and>
      length es = work_left p"
    by (auto simp: drained_from_def work_left_zero)
  with q stop show ?thesis by blast
qed

text \<open>
  C19: the continuation of \<open>handleSubmit\<close> commutes with every event that is
  not an input or a submission. Running the timer before or after a scroll,
  a smooth-scroll end, a pointer move, a hover, a resize, a reflow or a click
  gives the same page.
\<close>

theorem timer_commutes:
  "\<not> form_event e \<Longrightarrow> page_run p [TimerFires, e] = page_run p [e, TimerFires]"
proof (cases e)
  case (Click b)
  then show ?thesis by (simp add: click_resume split: nat.splits)
qed (auto simp: scroll_to_def Let_def handleScroll_def handleSubmit_resume_def delay_outcome_def
       handler_defs split: nat.splits option.splits)

theorem timer_commutes_witness:
  "\<not> form_event (UserScroll 1700) \<and>
   page_run (page_run (page_init example_window) (filled_events @ [SubmitForm])) [TimerFires, UserScroll 1700] =
   page_run (page_run (page_init example_window) (filled_events @ [SubmitForm])) [UserScroll 1700, TimerFires]"
proof -
  have n: "\<not> form_event (UserScroll 1700)" by simp
  from n timer_commutes [OF n] show ?thesis by blast
qed

end
