(* ===== verification/Document.thy ===== *)
theory Document
  imports Page
begin

text \<open>
  The ids of the document src/app/page.tsx renders, and the lookups that
  use them. \<open>handleScroll\<close> (line 33) and \<open>scrollToSection\<close> (line 100)
  find sections with \<open>document.getElementById\<close>. Each section names its
  heading with \<open>aria-labelledby\<close>. Each form label names its control with
  \<open>htmlFor\<close>. An element is kept with its tag and these three attributes,
  in document order, section by section. \<open>getElementById\<close> returns the
  first element in tree order with the id, as the DOM specifies.
\<close>

section \<open>Definitions\<close>

record element =
  tag :: string
  elem_id :: "string option"
  labelledby :: "string option"
  html_for :: "string option"

definition section_element :: "string option \<Rightarrow> string \<Rightarrow> element" where
  "section_element i h = \<lparr>tag = ''section'', elem_id = i, labelledby = Some h, html_for = None\<rparr>"

definition heading_element :: "string \<Rightarrow> string \<Rightarrow> element" where
  "heading_element t i = \<lparr>tag = t, elem_id = Some i, labelledby = None, html_for = None\<rparr>"

text \<open>Home: the section (lines 296--300) and its \<open>h1\<close> (326--330).\<close>

definition home_elements :: "element list" where
  "home_elements = [section_element (Some ''home'') ''home-heading'', heading_element ''h1'' ''home-heading'']"

text \<open>About: lines 369--373 and the \<open>h2\<close> at 380--384.\<close>

definition about_elements :: "element list" where
  "about_elements = [section_element (Some ''about'') ''about-heading'', heading_element ''h2'' ''about-heading'']"

text \<open>Services: lines 449--453 and 460--464.\<close>

definition services_elements :: "element list" where
  "services_elements =
     [section_element (Some ''services'') ''services-heading'', heading_element ''h2'' ''services-heading'']"

text \<open>Skills: a section without id (line 499) and its heading (506--510).\<close>

definition skills_elements :: "element list" where
  "skills_elements = [section_element None ''skills-heading'', heading_element ''h2'' ''skills-heading'']"

text \<open>Projects: a section without id (line 546) and its heading (553--557).\<close>

definition projects_elements :: "element list" where
  "projects_elements = [section_element None ''projects-heading'', heading_element ''h2'' ''projects-heading'']"

text \<open>Contact: lines 608--612 and 619--623.\<close>

definition contact_elements :: "element list" where
  "contact_elements =
     [section_element (Some ''contact'') ''contact-heading'', heading_element ''h2'' ''contact-heading'']"

text \<open>The form: each \<open><label htmlFor>\<close> and the control with that id (lines 741--794).\<close>

definition label_element :: "string \<Rightarrow> element" where
  "label_element i = \<lparr>tag = ''label'', elem_id = None, labelledby = None, html_for = Some i\<rparr>"

definition control_element :: "string \<Rightarrow> string \<Rightarrow> element" where
  "control_element t i = \<lparr>tag = t, elem_id = Some i, labelledby = None, html_for = None\<rparr>"

definition form_elements :: "element list" where
  "form_elements =
     [label_element ''name'', control_element ''input'' ''name'',
      label_element ''email'', control_element ''input'' ''email'',
      label_element ''message'', control_element ''textarea'' ''message'']"

definition document_elements :: "element list" where
  "document_elements =
     home_elements @ about_elements @ services_elements @ skills_elements @ projects_elements @
     contact_elements @ form_elements"

definition getElementById :: "element list \<Rightarrow> string \<Rightarrow> element option" where
  "getElementById doc i = List.find (\<lambda>e. elem_id e = Some i) doc"

text \<open>The tag of the element an id names, if any.\<close>

definition tag_of_id :: "string \<Rightarrow> string option" where
  "tag_of_id i = map_option tag (getElementById document_elements i)"

section \<open>Lemmas\<close>

lemmas document_defs = document_elements_def home_elements_def about_elements_def services_elements_def
  skills_elements_def projects_elements_def contact_elements_def form_elements_def
  section_element_def heading_element_def label_element_def control_element_def

subsection \<open>Properties\<close>

text \<open>
  The document's ids are unique, and every id the code or the markup
  looks up names exactly the element meant:
  \<^item> each of the four ids \<open>handleScroll\<close> and \<open>scrollToSection\<close> pass to
    \<open>getElementById\<close> names a \<open>section\<close>;
  \<^item> each \<open>aria-labelledby\<close> names a heading;
  \<^item> each label's \<open>htmlFor\<close> names a form control;
  \<^item> each key of the form object has its control.
\<close>

lemma document_ids_resolve:
  "distinct (List.map_filter elem_id document_elements) \<and>
   list_all (\<lambda>s. tag_of_id s = Some ''section'') tracked_sections \<and>
   list_all (\<lambda>e. case labelledby e of None \<Rightarrow> True | Some h \<Rightarrow> tag_of_id h \<in> {Some ''h1'', Some ''h2''})
     document_elements \<and>
   list_all (\<lambda>e. case html_for e of None \<Rightarrow> True | Some i \<Rightarrow> tag_of_id i \<in> {Some ''input'', Some ''textarea''})
     document_elements \<and>
   list_all (\<lambda>k. tag_of_id k \<noteq> None) form_fields"
  by (simp add: document_defs tag_of_id_def getElementById_def tracked_sections_def form_fields_def
      map_filter_simps)

end
