(* ===== verification/Spec2Isabelle.thy ===== *)
theory Spec2Isabelle
  imports View SubmissionSpec PageLayout Listeners Motion EventQueue Document
begin

text \<open>
  \<^bold>\<open>A verification library for the portfolio page of firaol1214/portfolio.\<close>

  \<^bold>\<open>The program.\<close> The repository is one React client component,
  \<open>Portfolio\<close> in src/app/page.tsx. Seven \<open>useState\<close> hooks hold its state
  (lines 15--25). A mount effect registers three window listeners: scroll,
  mousemove and resize (lines 27--68). Handlers: \<open>handleChange\<close>,
  \<open>handleSubmit\<close>, \<open>scrollToSection\<close> and \<open>toggleMenu\<close>
  (lines 70--108). The JSX (lines 171--873) renders the header, both
  navigation menus, the sections and the contact form, and wires the
  handlers to \<open>onClick\<close>, \<open>onChange\<close> and \<open>onSubmit\<close>. Everything runs
  on the browser's single-threaded event loop. The only concurrency is the
  \<open>await\<close> in \<open>handleSubmit\<close>, which lets other events run while a
  simulated request waits 1000 ms.

  \<^bold>\<open>Theories and what they model.\<close>
  \<^item> Prelude: type names (\<open>section_id\<close>, \<open>px\<close>, \<open>js_object\<close>), the
    collections \<open>handler_defs\<close> and \<open>view_defs\<close>, and lemmas on
    \<open>List.find\<close>, clamping and map update.
  \<^item> PortfolioState: the record \<open>portfolio\<close>, one field per hook with the
    hook's name, and \<open>portfolio_init\<close>, the hooks' initial values. The
    form object is a map from strings to strings, as
    \<open>{...prev, [name]: value}\<close> may add any key.
  \<^item> JsString: \<open>includes\<close>, \<open>charAt\<close>, \<open>toUpperCase\<close> and \<open>slice\<close>, as
    far as the page uses them (ASCII), and the decimal form of an integer
    (\<open>String(n)\<close>) with its reading back. These belong to the JavaScript
    runtime and are modelled from ECMAScript.
  \<^item> ScrollTracker: \<open>handleScroll\<close> (lines 28--47). The loop with its
    \<open>break\<close> is \<open>scan_sections\<close>; the document is a parameter mapping ids
    to \<open>(offsetTop, offsetHeight)\<close>.
  \<^item> Navigation: \<open>scrollToSection\<close>, \<open>toggleMenu\<close> and \<open>handleResize\<close>
    (lines 53--57, 97--108). \<open>scrollToSection\<close> also returns the scroll
    request that \<open>scrollIntoView\<close> makes.
  \<^item> Pointer: \<open>handleMouseMove\<close> and the hover callbacks.
  \<^item> FormValidation: the browser's constraint validation of the form: the
    \<open>required\<close> inputs and the \<open>type="email"\<close> input, with the HTML
    standard's valid e-mail address as an executable check, and the value
    sanitisation that turns what the user typed into \<open>e.target.value\<close>.
  \<^item> ContactForm: \<open>handleChange\<close>, and \<open>handleSubmit\<close> split at its
    \<open>await\<close>. The synchronous part \<open>handleSubmit_sync\<close> takes the submit
    event, whose \<open>defaultPrevented\<close> flag \<open>preventDefault\<close> sets, and
    runs \<open>setIsSubmitting(true)\<close> (\<open>handleSubmit_start\<close>). The
    continuation \<open>handleSubmit_resume\<close> takes the promise's outcome and
    runs the \<open>try\<close> rest or the \<open>catch\<close>, then the \<open>finally\<close>.
  \<^item> Listeners: the mount effect (lines 27--68) on the window's listener
    list, with the DOM's rules for \<open>addEventListener\<close> and
    \<open>removeEventListener\<close> and a closure named by the effect run that
    created it. React's lifecycle runs the effect once per mount and the
    cleanup on unmount; strict mode's replay is a lifecycle too.
    \<open>browser_step\<close> delivers window events through the list, and
    \<open>app_reachable\<close> interleaves lifecycle actions with browser events.
  \<^item> Content: the content arrays (services, projects, about facts,
    skills), the card each \<open>map\<close> renders with its \<open>key\<close> and
    \<open>custom\<close> prop, the contact links with their attributes, and the
    footer's copyright line.
  \<^item> Motion: \<open>sectionVariants\<close> and \<open>itemVariants\<close>, the \<open>custom\<close>
    prop of every element animated with \<open>itemVariants\<close>, and the stagger
    delays framer-motion computes from them, with JavaScript's \<open>NaN\<close>;
    and the inline \<open>initial\<close>/\<open>animate\<close>/\<open>exit\<close>/\<open>transition\<close>
    props of the logo, the mobile menu, the status paragraph and the footer.
  \<^item> Page: the browser around the component. The window holds the scroll
    position, viewport, document height and element boxes. The page also
    counts the \<open>handleSubmit\<close> continuations waiting for their timer, and
    records the destination of a smooth scroll. \<open>page_step\<close> handles one
    event, with the guards the rendered page imposes: visibility of the
    \<open>md:hidden\<close> and \<open>hidden md:block\<close> menus, constraint validation
    of the inputs, the \<open>disabled\<close> submit button, and scroll events fire
    only on movement. A submit event runs \<open>handleSubmit_sync\<close>, then the
    browser's default action unless the handler prevented it: the form has
    no \<open>action\<close>, so that is \<open>form_navigation\<close>, a reload of the page
    from scratch. After a resize or a reflow the browser clamps the
    scroll position back into range, which may fire a scroll event. \<open>page_run\<close> runs an event list. \<open>reachable\<close> is the
    inductive set of pages reachable from a freshly mounted page in any
    window. \<open>page_inv\<close> is the invariant they keep.
  \<^item> PageLayout: the block flow of the page's top-level blocks in JSX
    order (home, about, services, skills, projects, contact, footer). It gives
    the boxes the scroll listener sees for given block heights. The boxes of
    a flow never overlap.
  \<^item> View: \<open>render\<close>, the state-dependent part of the JSX: navigation
    labels and class strings, menu icon, mobile menu, input values, submit
    button and status paragraph.
  \<^item> SubmissionSpec: the abstract submission machine of the spec (Idle,
    Submitting, Succeeded, Failed) as an inductive relation, and the
    simulation lemma that the page implements it.
  \<^item> EventQueue: the browser's loop over the page's deferred work, the
    pending \<open>handleSubmit\<close> timers and the pending smooth scroll, as a
    \<open>while_option\<close> (\<open>drain\<close>), and the order of the timer against other
    events.
  \<^item> Document: the ids of the rendered document: the sections, their
    headings, the form's labels and controls, and \<open>getElementById\<close>.
  \<^item> This theory: properties that span the view and the event loop.

  \<^bold>\<open>What the properties show.\<close> The properties (the theorems labelled
  C1, C2, ...) are claims about the page's code: each fails when the
  code it rests on is changed the way a plausible bug would change it.
  \<^item> The scroll listener: the loop equals \<open>List.find\<close> of its test and
    changes only \<open>activeSection\<close>, and with non-overlapping boxes its
    choice does not depend on the order of the list. On the page's own
    section order, scrolling through the unnamed skills and projects
    sections keeps the previous highlight.
  \<^item> Reachable pages: a tracked active section and exactly one
    highlighted desktop navigation item; a form object with exactly the
    three keys; at most one submission in flight, exactly while
    \<open>isSubmitting\<close> holds; no failure message; and no open menu in a
    window wider than 768 pixels.
  \<^item> Submission: a filled form from an idle page submits and, when its
    timer fires, shows the thank-you message with empty fields. Because the
    handler prevents the default action, the submit keeps the document.
    A pending submission always completes, and the page refines the
    abstract submission machine. A malformed email blocks the submit, and
    a submit while one is pending changes nothing.
  \<^item> Navigation: clicks take effect at once, and on the page's own section
    order they are confirmed when the smooth scroll arrives, using only
    what \<open>min-h-screen\<close> guarantees. A resize wider than 768 pixels
    closes the menu.
  \<^item> Ordering: the submit continuation commutes with every event other
    than input and submission, so the timing of the \<open>await\<close> only
    matters for the form.
  \<^item> Pointer state: two pages that differ only in \<open>cursorPosition\<close> and
    \<open>isHoveringLink\<close> stay so under every event sequence and render the
    same view (noninterference, \<open>View.pointer_noninterference\<close>).
  \<^item> Listeners: while mounted the window has exactly the latest effect
    run's three closures, so each window event runs its handler once; the
    listener list keeps its invariant across strict-mode replays; after
    unmount no event reaches the component; and for any interleaving of
    lifecycle actions and browser events the listener-list invariant, the
    page invariant and the scroll range hold together.

  The other lemmas are library facts that support these, or facts of the
  environment model and the constant content rather than of the page's
  code, kept because they document the model: the loop over deferred work
  stops (\<open>EventQueue.drain_terminates\<close>, a property of the browser loop
  whatever the handlers do); the scroll position stays in range (the
  browser's clamping); the fields hold only sanitised values (the
  idempotence of the browser's sanitiser); \<open>includes\<close> is the sublist
  relation and the label function is injective on lower-case ids; every
  accepted e-mail address has one \<open>@\<close>; the document's ids are unique
  and resolve as meant; sibling keys are distinct; the contact links
  carry \<open>noopener\<close> and show the address they open; the footer's year
  reads back; the staggered cards start within a second, in reading
  order; every inline animation settles in the resting layout.

  \<^bold>\<open>Findings.\<close> Text typed while a submission is
  pending is discarded when its timer fires
  (\<open>Page.input_during_submit_discarded\<close>). At a width of exactly 768 pixels
  an open mobile menu is hidden by CSS but stays open, and reappears when
  the window narrows again (\<open>stale_menu_at_768\<close>). A new submission keeps
  the previous status message on screen while it is in flight, where the
  spec has the machine pass through Idle (\<open>resubmit_keeps_old_message\<close>).
  A form with all three fields filled in does not always submit: the browser
  blocks a malformed email (\<open>Page.invalid_email_blocks_submit\<close>). The
  active section is home after mount whatever the scroll position, until
  the first scroll event (the lemma \<open>spec_example_trace\<close>). Fourteen elements
  use \<open>itemVariants\<close>, whose \<open>visible\<close> is a function of the index,
  without a \<open>custom\<close> prop, so their delay is \<open>NaN\<close>
  (the lemma \<open>Motion.uncustomed_items_nan\<close>). \<open>cursorPosition\<close> and
  \<open>isHoveringLink\<close> are written on every pointer move and hover but never
  read, so each move re-renders the page for nothing
  (\<open>View.pointer_noninterference\<close>). The footer, static in the spec,
  prints the client's current year (\<open>Content.footer_line\<close>).
  The skills carry levels that are never shown.

  \<^bold>\<open>Bounds, fuel, numbers.\<close> No loop of the page is unbounded. The scroll
  loop is structural recursion over a four-element list, and the event loop
  is a run over a finite event list. No fuel is needed. The loop over
  deferred work is a \<open>while_option\<close>, proved to return by the measure
  \<open>work_left\<close>, the number of pending tasks (at most two on a reachable
  page). Pixel values are
  \<open>int\<close>: the code only compares them and adds 200, so there is no
  overflow to model. Browsers may report fractional \<open>scrollY\<close>; the model
  takes whole pixels. Stagger delays are rationals: \<open>i * 0.1\<close> is exact
  in the model and rounded in a double, and the bound proved is strict so
  it holds for both. Years print exactly, being far below \<open>10^21\<close>.

  \<^bold>\<open>Not modelled.\<close> The frame-by-frame animation inside framer-motion,
  \<open>AnimatePresence\<close>'s deferred unmount of the closing mobile menu, and
  the \<open>whileHover\<close> lift of the service and project cards: they run in the
  library and change only presentation. Constant class strings and markup of the static sections,
  beyond what Content keeps. Next.js \<open>Image\<close> and the asset files. The
  browser's layout engine: element boxes are
  inputs of the \<open>Reflow\<close> event, and PageLayout relates them to block
  heights. Intermediate frames of a smooth scroll: they are ordinary
  \<open>UserScroll\<close>-like positions and are not distinguished. Next.js
  itself (routing, the root layout, server rendering): the page is a
  client component, and the \<open>Link\<close> import is unused. The reload that
  \<open>form_navigation\<close> stands for is modelled by its result, a freshly
  mounted page in the same window, not by the request it sends.
\<close>

section \<open>Properties across the view and the event loop\<close>

lemma reachable_active_nav: "reachable p \<Longrightarrow> activeSection (ui p) \<in> set nav_items"
  by (drule reachable_page_inv) (simp add: page_inv_def nav_items_tracked)

lemma desktop_nav_render:
  "desktop_nav (render s) = map (desktop_nav_entry (activeSection s)) nav_items"
  by (simp add: render_def)

lemma mobile_menu_shown_iff:
  "mobile_menu_shown p \<longleftrightarrow> isMenuOpen (ui p) \<and> \<not> md_active (win p)"
  by (simp add: mobile_menu_shown_def render_def)

text \<open>
  C2: every reachable page highlights exactly one item of the desktop
  navigation.
\<close>

theorem reachable_one_highlighted:
  "reachable p \<Longrightarrow> length (filter nav_highlighted (desktop_nav (render (ui p)))) = 1"
  unfolding desktop_nav_render by (intro highlighted_count reachable_active_nav)

theorem reachable_one_highlighted_witness:
  "reachable (page_run (page_init example_window) [Click HeroServices]) \<and>
   length (filter nav_highlighted
     (desktop_nav (render (ui (page_run (page_init example_window) [Click HeroServices]))))) = 1"
  using example_reachable reachable_one_highlighted [OF example_reachable] by (rule conjI)

text \<open>
  C15: an open mobile menu survives a resize to exactly 768 pixels. CSS hides
  it there, since \<open>md:\<close> starts at 768, but \<open>handleResize\<close> closes it only
  above 768. When the window narrows again to 767 pixels the menu is back on
  screen without a click.
\<close>

theorem stale_menu_at_768:
  assumes "mobile_menu_shown p"
  shows "isMenuOpen (ui (page_step p (Resize 768 h))) \<and>
         \<not> mobile_menu_shown (page_step p (Resize 768 h)) \<and>
         mobile_menu_shown (page_run p [Resize 768 h, Resize 767 h'])"
  using assms
  by (simp add: mobile_menu_shown_iff md_active_def handleResize_def
      menu_breakpoint_def)

theorem stale_menu_at_768_witness:
  "mobile_menu_shown (page_step (page_init (example_window\<lparr>innerWidth := 400\<rparr>)) (Click MenuButton)) \<and>
   mobile_menu_shown
     (page_run (page_step (page_init (example_window\<lparr>innerWidth := 400\<rparr>)) (Click MenuButton))
       [Resize 768 900, Resize 767 900])"
proof -
  let ?p = "page_step (page_init (example_window\<lparr>innerWidth := 400\<rparr>)) (Click MenuButton)"
  have s: "mobile_menu_shown ?p"
    by (simp add: mobile_menu_shown_iff md_active_def page_init_def
        portfolio_init_def toggleMenu_def)
  from s stale_menu_at_768 [OF s, of 900 900] show ?thesis by blast
qed

text \<open>
  C16: a new submission leaves the previous status message on screen: right
  after the submit event the button reads "Sending..." and the status
  paragraph is the one shown before.
\<close>

theorem resubmit_keeps_old_message:
  assumes "\<not> isSubmitting (ui p)" "form_valid (formData (ui p))"
  shows "submit_label (render (ui (page_step p SubmitForm))) = ''Sending...'' \<and>
         status_line (render (ui (page_step p SubmitForm))) = status_line (render (ui p))"
  using assms by (simp add: render_def handleSubmit_start_def)

theorem resubmit_keeps_old_message_witness:
  "\<not> isSubmitting (ui (page_run (page_init example_window)
        (filled_events @ [SubmitForm, TimerFires] @ filled_events))) \<and>
   form_valid (formData (ui (page_run (page_init example_window)
        (filled_events @ [SubmitForm, TimerFires] @ filled_events)))) \<and>
   status_line (render (ui (page_step (page_run (page_init example_window)
        (filled_events @ [SubmitForm, TimerFires] @ filled_events)) SubmitForm))) =
     status_line (render (ui (page_run (page_init example_window)
        (filled_events @ [SubmitForm, TimerFires] @ filled_events))))"
proof -
  let ?p = "page_run (page_init example_window) (filled_events @ [SubmitForm, TimerFires] @ filled_events)"
  have i: "\<not> isSubmitting (ui ?p)"
    by (simp add: filled_events_def page_init_def portfolio_init_def form_fields_def
        handleChange_def form_valid_def required_filled_def valid_email_def
        email_local_char_def is_alnum_def email_label_def handleSubmit_start_def
        handleSubmit_resume_Resolved delay_outcome_def)
  have f: "form_valid (formData (ui ?p))"
    by (simp add: filled_events_def page_init_def portfolio_init_def form_fields_def
        handleChange_def form_valid_def required_filled_def valid_email_def
        email_local_char_def is_alnum_def email_label_def handleSubmit_start_def
        handleSubmit_resume_Resolved delay_outcome_def input_value_simps)
  from i f resubmit_keeps_old_message [OF i f] show ?thesis by blast
qed

text \<open>
  The example of the spec: right after load the active section is home,
  and a scroll that puts \<open>scrollY + 200\<close> inside the services section
  makes services active.
\<close>

lemma spec_example_trace:
  "activeSection (ui (page_init w)) = ''home'' \<and>
   activeSection (ui (page_run (page_init example_window) [UserScroll 1700])) = ''services''"
  by (simp add: page_init_def portfolio_init_def example_window_def scroll_to_def max_scroll_def
      handleScroll_def scroll_probe_def tracked_sections_def)

end
